theory Spec2Isabelle
  imports Main
begin

section \<open>JavaScript values, strings and numbers\<close>

text \<open>
  The query builder of kitdbase/postgresql-query-builder (class \<open>TableQuery\<close> and class
  \<open>Postgres\<close> of the TypeScript source) is embedded as HOL functions over explicit state.

  A JavaScript string is a \<open>string\<close>; one \<open>char\<close> stands for one code unit in the range
  U+0000 to U+00FF. Values of type \<open>any\<close> are plain data: the primitive values, arrays
  and objects whose properties are listed in enumeration order.

  A JavaScript number is a double. \<open>Num i\<close> with \<open>\<bar>i\<bar> \<le> 2^53\<close> is the integer \<open>i\<close>: doubles
  hold every integer of that range, their arithmetic is exact whenever operands and
  result lie in it, and such a number prints in decimal digits. \<open>NaN\<close> is the value of
  that name. \<open>Num i\<close> with a larger \<open>\<bar>i\<bar>\<close> stands for one of the remaining doubles (a
  fraction, an infinity, a number of larger magnitude), told apart by \<open>i\<close> and nothing
  more: like every number other than \<open>0\<close> and \<open>NaN\<close> it is truthy, and the text it prints
  as and the results of arithmetic outside the exact range are left open, so that
  nothing is stated about rounding.
\<close>

datatype number = Num int | NaN

datatype jsval =
    VUndefined
  | VNull
  | VBool bool
  | VNumber number
  | VString string
  | VArray "jsval list"
  | VObject "(string \<times> jsval) list"

text \<open>The errors a call can raise: an \<open>Error\<close> object made by the source itself, a
  \<open>TypeError\<close> of the language runtime, and an error thrown by the database driver
  (with its optional \<open>code\<close> and its \<open>message\<close>).\<close>

datatype error =
    Error string
  | TypeError string
  | DriverError "string option" string

fun error_message :: "error \<Rightarrow> string" where
  "error_message (Error m) = m"
| "error_message (TypeError m) = m"
| "error_message (DriverError c m) = m"

fun error_code :: "error \<Rightarrow> string option" where
  "error_code (Error m) = None"
| "error_code (TypeError m) = None"
| "error_code (DriverError c m) = c"

fun showNat :: "nat \<Rightarrow> string" where
  "showNat n =
     (if n < 10 then [''0123456789'' ! n]
      else showNat (n div 10) @ [''0123456789'' ! (n mod 10)])"

declare showNat.simps [simp del]

text \<open>The integers on which doubles are exact.\<close>

definition exact :: "int \<Rightarrow> bool" where
  "exact i = (\<bar>i\<bar> \<le> 9007199254740992)"

text \<open>Decimal digits of an integer, with a minus sign when it is negative.\<close>

definition decimal :: "int \<Rightarrow> string" where
  "decimal i = (if i < 0 then CHR ''-'' # showNat (nat (- i)) else showNat (nat i))"

text \<open>What is left open: the text of a number outside the exact range, and the results
  of a subtraction and of a multiplication that leave it.\<close>

definition openText :: "int \<Rightarrow> string" where
  "openText = (SOME f. True)"

definition openDifference :: "int \<Rightarrow> int \<Rightarrow> number" where
  "openDifference = (SOME f. True)"

definition openProduct :: "int \<Rightarrow> int \<Rightarrow> number" where
  "openProduct = (SOME f. True)"

text \<open>\<open>String(n)\<close> for a number.\<close>

fun numberToString :: "number \<Rightarrow> string" where
  "numberToString NaN = ''NaN''"
| "numberToString (Num i) = (if exact i then decimal i else openText i)"

text \<open>\<open>xs.join(sep)\<close> on strings.\<close>

fun joinStr :: "string \<Rightarrow> string list \<Rightarrow> string" where
  "joinStr sep [] = []"
| "joinStr sep [x] = x"
| "joinStr sep (x # y # ys) = x @ sep @ joinStr sep (y # ys)"

text \<open>What a template literal \<open>`${v}`\<close> inserts for a value: \<open>String(v)\<close>. An array
  prints its elements separated by commas, \<open>null\<close> and \<open>undefined\<close> elements as nothing.\<close>

fun toString :: "jsval \<Rightarrow> string" where
  "toString VUndefined = ''undefined''"
| "toString VNull = ''null''"
| "toString (VBool b) = (if b then ''true'' else ''false'')"
| "toString (VNumber n) = numberToString n"
| "toString (VString s) = s"
| "toString (VArray vs) =
     joinStr '','' (map (\<lambda>v. if v = VUndefined \<or> v = VNull then [] else toString v) vs)"
| "toString (VObject kvs) = ''[object Object]''"

text \<open>\<open>Array.prototype.join\<close> on an array of values.\<close>

definition arrayJoin :: "string \<Rightarrow> jsval list \<Rightarrow> string" where
  "arrayJoin sep vs =
     joinStr sep (map (\<lambda>v. if v = VUndefined \<or> v = VNull then [] else toString v) vs)"

fun typeof :: "jsval \<Rightarrow> string" where
  "typeof VUndefined = ''undefined''"
| "typeof VNull = ''object''"
| "typeof (VBool b) = ''boolean''"
| "typeof (VNumber n) = ''number''"
| "typeof (VString s) = ''string''"
| "typeof (VArray vs) = ''object''"
| "typeof (VObject kvs) = ''object''"

fun isArray :: "jsval \<Rightarrow> bool" where
  "isArray (VArray vs) = True"
| "isArray v = False"

text \<open>The literal formatting the source repeats inline:
  \<open>typeof value === 'string' ? `'${value}'` : value\<close>.\<close>

fun quoteString :: "jsval \<Rightarrow> jsval" where
  "quoteString (VString s) = VString (CHR 0x27 # s @ [CHR 0x27])"
| "quoteString v = v"

text \<open>A property that is absent reads as \<open>undefined\<close>.\<close>

fun optString :: "string option \<Rightarrow> string" where
  "optString None = ''undefined''"
| "optString (Some s) = s"

text \<open>Array destructuring \<open>const [value1, value2] = v\<close>: the first two items of an
  iterable (a missing item is \<open>undefined\<close>), a \<open>TypeError\<close> on anything else. The message
  of a \<open>TypeError\<close> is the engine's; the model fixes one text for each.\<close>

fun item :: "jsval list \<Rightarrow> nat \<Rightarrow> jsval" where
  "item [] i = VUndefined"
| "item (v # vs) 0 = v"
| "item (v # vs) (Suc i) = item vs i"

fun destructure2 :: "jsval \<Rightarrow> error + (jsval \<times> jsval)" where
  "destructure2 (VArray vs) = Inr (item vs 0, item vs 1)"
| "destructure2 (VString s) =
     Inr (item (map (\<lambda>c. VString [c]) s) 0, item (map (\<lambda>c. VString [c]) s) 1)"
| "destructure2 v = Inl (TypeError (toString v @ '' is not iterable''))"

definition startsWith :: "string \<Rightarrow> string \<Rightarrow> bool" where
  "startsWith s p = (take (length p) s = p)"

text \<open>\<open>toUpperCase\<close>, on the letters a to z. No other code unit below U+0100 maps into
  the words \<open>ASC\<close> and \<open>DESC\<close>, the only results the builder compares with.\<close>

definition upperChar :: "char \<Rightarrow> char" where
  "upperChar c =
     (case map_of (zip ''abcdefghijklmnopqrstuvwxyz'' ''ABCDEFGHIJKLMNOPQRSTUVWXYZ'') c of
        Some u \<Rightarrow> u
      | None \<Rightarrow> c)"

definition toUpperCase :: "string \<Rightarrow> string" where
  "toUpperCase s = map upperChar s"

text \<open>Running the callbacks of \<open>Array.prototype.map\<close> in order; the first one that raises
  ends the loop.\<close>

fun mapE :: "('a \<Rightarrow> error + 'b) \<Rightarrow> 'a list \<Rightarrow> error + 'b list" where
  "mapE f [] = Inr []"
| "mapE f (x # xs) =
     (case f x of
        Inl e \<Rightarrow> Inl e
      | Inr y \<Rightarrow> (case mapE f xs of Inl e \<Rightarrow> Inl e | Inr ys \<Rightarrow> Inr (y # ys)))"

section \<open>The builder state\<close>

text \<open>\<open>interface Condition\<close> and \<open>interface OrderBy\<close> of \<open>@types/Field.ts\<close>. Optional
  properties are options; \<open>value\<close> and \<open>query\<close> have type \<open>any\<close>. The properties
  \<open>value\<close>, \<open>query\<close> and \<open>type\<close> of a condition are \<open>value_c\<close>, \<open>query_c\<close> and \<open>type_c\<close>
  here, and \<open>column\<close> of an ordering is \<open>order_column\<close>.\<close>

record condition =
  column :: "string option"
  operator :: "string option"
  value_c :: jsval
  query_c :: jsval
  type_c :: string
  isGroup :: bool

record OrderBy =
  order_column :: string
  direction :: string

text \<open>The pools the source creates: the shared one of the \<open>Postgres\<close> singleton, and
  the two that \<open>#get_response\<close> opens while it creates a missing database. In the
  builder state, the fields \<open>_orderBy\<close>, \<open>_distinct\<close>, \<open>_groupBy\<close> and \<open>fields\<close> carry the
  suffix \<open>_f\<close>; a method whose name HOL has taken carries the suffix \<open>_q\<close>. The builder
  a method is called on is its last argument.\<close>

datatype pool = SharedPool | AdminPool | TargetPool

record TableQuery =
  conection :: "pool option"
  nextType :: string
  joins :: "string list"
  orderBy_f :: "OrderBy list"
  distinct_f :: bool
  groupBy_f :: "string list"
  tableName :: string
  fields_f :: "string list"
  query :: string
  conditions :: "condition list"
  limitValue :: "number option"
  pageValue :: "number option"

text \<open>\<open>constructor(tableName, conection = null)\<close>.\<close>

definition new_TableQuery :: "string \<Rightarrow> pool option \<Rightarrow> TableQuery" where
  \<open>new_TableQuery t c =
     \<lparr> conection = c, nextType = ''AND'', joins = [], orderBy_f = [], distinct_f = False,
       groupBy_f = [], tableName = t, fields_f = [],
       query = ''SELECT * FROM "'' @ t @ ''"'',
       conditions = [], limitValue = None, pageValue = None \<rparr>\<close>

section \<open>Conditions\<close>

definition leaf :: "string \<Rightarrow> string \<Rightarrow> jsval \<Rightarrow> string \<Rightarrow> condition" where
  "leaf c op v t =
     \<lparr> column = Some c, operator = Some op, value_c = v, query_c = VUndefined,
       type_c = t, isGroup = False \<rparr>"

definition groupNode :: "string \<Rightarrow> string \<Rightarrow> condition" where
  "groupNode q t =
     \<lparr> column = None, operator = None, value_c = VUndefined, query_c = VString q,
       type_c = t, isGroup = True \<rparr>"

definition where_q :: "string \<Rightarrow> string option \<Rightarrow> jsval \<Rightarrow> TableQuery \<Rightarrow> TableQuery" where
  "where_q col op v b =
     (let op' = (case op of None \<Rightarrow> ''='' | Some x \<Rightarrow> x) in
      b\<lparr> conditions := conditions b @ [leaf col op' v (nextType b)], nextType := ''AND'' \<rparr>)"

definition orWhere :: "string \<Rightarrow> string option \<Rightarrow> jsval \<Rightarrow> TableQuery \<Rightarrow> TableQuery" where
  "orWhere col op v b =
     (let op' = (case op of None \<Rightarrow> ''='' | Some x \<Rightarrow> x) in
      b\<lparr> conditions := conditions b @ [leaf col op' v ''OR''] \<rparr>)"

definition or_q :: "TableQuery \<Rightarrow> TableQuery" where
  "or_q b = b\<lparr> nextType := ''OR'' \<rparr>"

definition and_q :: "TableQuery \<Rightarrow> TableQuery" where
  "and_q b = b\<lparr> nextType := ''AND'' \<rparr>"

text \<open>\<open>whereBetween(column, [value1, value2])\<close>: the parameter is destructured on entry,
  which raises on a value that is not iterable.\<close>

definition whereBetween :: "string \<Rightarrow> jsval \<Rightarrow> TableQuery \<Rightarrow> error + TableQuery" where
  "whereBetween col arg b =
     (case destructure2 arg of
        Inl e \<Rightarrow> Inl e
      | Inr (value1, value2) \<Rightarrow>
          if value1 \<noteq> VUndefined \<and> value2 \<noteq> VUndefined
          then Inr (b\<lparr> conditions :=
                        conditions b @ [leaf col ''BETWEEN'' (VArray [value1, value2]) (nextType b)],
                      nextType := ''AND'' \<rparr>)
          else Inr b)"

definition whereIn :: "string \<Rightarrow> jsval \<Rightarrow> TableQuery \<Rightarrow> TableQuery" where
  "whereIn col vals b =
     (case vals of
        VArray vs \<Rightarrow>
          if length vs > 0
          then b\<lparr> conditions := conditions b @ [leaf col ''IN'' vals (nextType b)],
                  nextType := ''AND'' \<rparr>
          else b
      | _ \<Rightarrow> b)"

definition whereNull :: "string \<Rightarrow> TableQuery \<Rightarrow> TableQuery" where
  "whereNull col b =
     b\<lparr> conditions := conditions b @ [leaf col ''IS NULL'' VUndefined (nextType b)],
        nextType := ''AND'' \<rparr>"

definition whereNotNull :: "string \<Rightarrow> TableQuery \<Rightarrow> TableQuery" where
  "whereNotNull col b =
     b\<lparr> conditions := conditions b @ [leaf col ''IS NOT NULL'' VUndefined (nextType b)],
        nextType := ''AND'' \<rparr>"

text \<open>The text of one predicate, as the callback of \<open>buildConditions\<close> computes it into
  \<open>conditionStr\<close>. The branch is chosen by the operator; \<open>BETWEEN\<close> destructures the
  value and \<open>IN\<close> calls \<open>value.map\<close>, which raise on a value of another shape.\<close>

definition conditionStr :: "condition \<Rightarrow> error + string" where
  "conditionStr cond =
     (if operator cond = Some ''BETWEEN'' then
        (case destructure2 (value_c cond) of
           Inl e \<Rightarrow> Inl e
         | Inr (value1, value2) \<Rightarrow>
             Inr (optString (column cond) @ '' BETWEEN '' @ toString (quoteString value1)
                  @ '' AND '' @ toString (quoteString value2)))
      else if operator cond = Some ''IN'' then
        (case value_c cond of
           VArray vals \<Rightarrow>
             Inr (optString (column cond) @ '' IN ('' @ arrayJoin '', '' (map quoteString vals)
                  @ '')'')
         | _ \<Rightarrow> Inl (TypeError ''cond.value.map is not a function''))
      else if operator cond = Some ''IS NULL'' then
        Inr (optString (column cond) @ '' IS NULL'')
      else if operator cond = Some ''IS NOT NULL'' then
        Inr (optString (column cond) @ '' IS NOT NULL'')
      else
        Inr (optString (column cond) @ '' '' @ optString (operator cond) @ '' ''
             @ toString (quoteString (value_c cond))))"

text \<open>The callback \<open>(cond, index) => ...\<close> of \<open>buildConditions\<close>.\<close>

definition renderCondition :: "condition \<Rightarrow> nat \<Rightarrow> error + string" where
  "renderCondition cond index =
     (let prefix = (if index = 0 then [] else '' '' @ type_c cond @ '' '') in
      if isGroup cond then Inr (prefix @ ''('' @ toString (query_c cond) @ '')'')
      else (case conditionStr cond of
              Inl e \<Rightarrow> Inl e
            | Inr s \<Rightarrow> Inr (prefix @ s)))"

definition buildConditions :: "TableQuery \<Rightarrow> error + string" where
  "buildConditions b =
     (case mapE (\<lambda>(cond, index). renderCondition cond index)
             (zip (conditions b) [0..<length (conditions b)]) of
        Inl e \<Rightarrow> Inl e
      | Inr parts \<Rightarrow> Inr (concat parts))"

text \<open>\<open>whereGroup(callback)\<close>: the callback is handed a fresh builder of the same table,
  without a connection; it changes that builder, or raises.\<close>

definition whereGroup :: "(TableQuery \<Rightarrow> error + TableQuery) \<Rightarrow> TableQuery \<Rightarrow> error + TableQuery" where
  "whereGroup callback b =
     (case callback (new_TableQuery (tableName b) None) of
        Inl e \<Rightarrow> Inl e
      | Inr groupQuery \<Rightarrow>
          (case buildConditions groupQuery of
             Inl e \<Rightarrow> Inl e
           | Inr groupConditions \<Rightarrow>
               Inr (b\<lparr> conditions := conditions b @ [groupNode groupConditions (nextType b)],
                       nextType := ''AND'' \<rparr>)))"

section \<open>Projection, ordering and pagination\<close>

definition select :: "string list \<Rightarrow> TableQuery \<Rightarrow> TableQuery" where
  \<open>select fs b =
     (if length fs > 0
      then b\<lparr> query := ''SELECT '' @ (if distinct_f b then ''DISTINCT '' else []) @ joinStr '', '' fs
                         @ '' FROM "'' @ tableName b @ ''"'' \<rparr>
      else b)\<close>

definition join :: "string \<Rightarrow> string \<Rightarrow> string \<Rightarrow> string \<Rightarrow> TableQuery \<Rightarrow> TableQuery" where
  \<open>join t column1 op column2 b =
     b\<lparr> joins := joins b @ [''JOIN "'' @ t @ ''" ON '' @ column1 @ '' '' @ op @ '' '' @ column2] \<rparr>\<close>

definition leftJoin :: "string \<Rightarrow> string \<Rightarrow> string \<Rightarrow> string \<Rightarrow> TableQuery \<Rightarrow> TableQuery" where
  \<open>leftJoin t column1 op column2 b =
     b\<lparr> joins := joins b @ [''LEFT JOIN "'' @ t @ ''" ON '' @ column1 @ '' '' @ op @ '' '' @ column2] \<rparr>\<close>

definition rightJoin :: "string \<Rightarrow> string \<Rightarrow> string \<Rightarrow> string \<Rightarrow> TableQuery \<Rightarrow> TableQuery" where
  \<open>rightJoin t column1 op column2 b =
     b\<lparr> joins := joins b @ [''RIGHT JOIN "'' @ t @ ''" ON '' @ column1 @ '' '' @ op @ '' '' @ column2] \<rparr>\<close>

definition orderBy :: "string \<Rightarrow> string \<Rightarrow> TableQuery \<Rightarrow> error + TableQuery" where
  "orderBy col dir b =
     (if toUpperCase dir \<in> set [''ASC'', ''DESC'']
      then Inr (b\<lparr> orderBy_f := orderBy_f b @ [\<lparr> order_column = col, direction = toUpperCase dir \<rparr>] \<rparr>)
      else Inl (Error (''Invalid direction: '' @ dir @ ''. Use '' @ [CHR 0x27] @ ''ASC'' @ [CHR 0x27]
                       @ '' or '' @ [CHR 0x27] @ ''DESC'' @ [CHR 0x27] @ ''.'')))"

definition groupBy :: "string \<Rightarrow> TableQuery \<Rightarrow> TableQuery" where
  "groupBy col b = b\<lparr> groupBy_f := groupBy_f b @ [col] \<rparr>"

text \<open>\<open>this.query.replace(/^SELECT /, 'SELECT DISTINCT ')\<close> rewrites a leading \<open>SELECT\<close>
  followed by a space.\<close>

definition distinct_q :: "TableQuery \<Rightarrow> TableQuery" where
  "distinct_q b =
     b\<lparr> distinct_f := True,
        query := (if startsWith (query b) ''SELECT ''
                  then ''SELECT DISTINCT '' @ drop (length ''SELECT '') (query b)
                  else query b) \<rparr>"

definition count_q :: "string \<Rightarrow> TableQuery \<Rightarrow> TableQuery" where
  \<open>count_q col b =
     b\<lparr> query := ''SELECT COUNT('' @ col @ '') AS count FROM "'' @ tableName b @ ''"'' \<rparr>\<close>

definition sum_q :: "string \<Rightarrow> TableQuery \<Rightarrow> TableQuery" where
  \<open>sum_q col b =
     b\<lparr> query := ''SELECT SUM('' @ col @ '') AS sum FROM "'' @ tableName b @ ''"'' \<rparr>\<close>

definition avg_q :: "string \<Rightarrow> TableQuery \<Rightarrow> TableQuery" where
  \<open>avg_q col b =
     b\<lparr> query := ''SELECT AVG('' @ col @ '') AS avg FROM "'' @ tableName b @ ''"'' \<rparr>\<close>

definition max_q :: "string \<Rightarrow> TableQuery \<Rightarrow> TableQuery" where
  \<open>max_q col b =
     b\<lparr> query := ''SELECT MAX('' @ col @ '') AS max FROM "'' @ tableName b @ ''"'' \<rparr>\<close>

definition min_q :: "string \<Rightarrow> TableQuery \<Rightarrow> TableQuery" where
  \<open>min_q col b =
     b\<lparr> query := ''SELECT MIN('' @ col @ '') AS min FROM "'' @ tableName b @ ''"'' \<rparr>\<close>

definition limit :: "number \<Rightarrow> TableQuery \<Rightarrow> TableQuery" where
  "limit n b = b\<lparr> limitValue := Some n \<rparr>"

definition page :: "number \<Rightarrow> TableQuery \<Rightarrow> TableQuery" where
  "page n b = b\<lparr> pageValue := Some n \<rparr>"

text \<open>Arithmetic of \<open>(this.pageValue - 1) * this.limitValue\<close>: exact when both operands
  and the result are in the exact range, \<open>NaN\<close> when an operand is \<open>NaN\<close>, left open
  otherwise.\<close>

fun minus_number :: "number \<Rightarrow> number \<Rightarrow> number" where
  "minus_number (Num a) (Num b) =
     (if exact a \<and> exact b \<and> exact (a - b) then Num (a - b) else openDifference a b)"
| "minus_number x y = NaN"

fun times_number :: "number \<Rightarrow> number \<Rightarrow> number" where
  "times_number (Num a) (Num b) =
     (if exact a \<and> exact b \<and> exact (a * b) then Num (a * b) else openProduct a b)"
| "times_number x y = NaN"

text \<open>The \<open>LIMIT\<close> step of \<open>buildQuery\<close> runs when \<open>limitValue\<close> is neither \<open>null\<close> nor
  \<open>undefined\<close> nor \<open>NaN\<close>. The \<open>OFFSET\<close> step runs when \<open>limitValue\<close> is truthy (a number
  other than \<open>0\<close> and \<open>NaN\<close>) and \<open>pageValue\<close> is neither \<open>null\<close> nor \<open>undefined\<close> nor
  \<open>NaN\<close>.\<close>

fun limitClause :: "number option \<Rightarrow> string" where
  "limitClause (Some (Num l)) = '' LIMIT '' @ numberToString (Num l)"
| "limitClause v = []"

fun offsetClause :: "number option \<Rightarrow> number option \<Rightarrow> string" where
  "offsetClause (Some (Num l)) (Some (Num p)) =
     (if l \<noteq> 0
      then '' OFFSET '' @ numberToString (times_number (minus_number (Num p) (Num 1)) (Num l))
      else [])"
| "offsetClause l p = []"

text \<open>The last step of \<open>buildQuery\<close>: the \<open>ORDER BY\<close> clause it appends, or nothing.\<close>

definition orderByClause :: "TableQuery \<Rightarrow> string" where
  "orderByClause b =
     (if length (orderBy_f b) > 0 \<and> \<not> startsWith (query b) ''SELECT COUNT''
         \<and> \<not> startsWith (query b) ''SELECT SUM'' \<and> \<not> startsWith (query b) ''SELECT AVG''
         \<and> \<not> startsWith (query b) ''SELECT MAX'' \<and> \<not> startsWith (query b) ''SELECT MIN''
      then '' ORDER BY ''
           @ joinStr '', '' (map (\<lambda>order. order_column order @ '' '' @ direction order) (orderBy_f b))
      else [])"

text \<open>\<open>buildQuery(includeSelect = true)\<close>. \<open>queryClauses\<close> is the text it builds before
  the \<open>ORDER BY\<close> step, from the rendered conditions: the base clause, the joins,
  \<open>WHERE\<close>, \<open>GROUP BY\<close>, \<open>LIMIT\<close> and \<open>OFFSET\<close>.\<close>

definition queryClauses :: "TableQuery \<Rightarrow> bool \<Rightarrow> string \<Rightarrow> string" where
  "queryClauses b includeSelect whereClauses =
     (let q0 = (if includeSelect then query b else []);
          q1 = (if length (joins b) > 0 then q0 @ '' '' @ joinStr '' '' (joins b) else q0);
          q2 = (if length whereClauses > 0 then q1 @ '' WHERE '' @ whereClauses else q1);
          q3 = (if length (groupBy_f b) > 0
                then q2 @ '' GROUP BY '' @ joinStr '', '' (groupBy_f b) else q2)
      in q3 @ limitClause (limitValue b) @ offsetClause (limitValue b) (pageValue b))"

definition buildQuery :: "TableQuery \<Rightarrow> bool \<Rightarrow> error + string" where
  "buildQuery b includeSelect =
     (case buildConditions b of
        Inl e \<Rightarrow> Inl e
      | Inr whereClauses \<Rightarrow> Inr (queryClauses b includeSelect whereClauses @ orderByClause b))"

text \<open>The older JavaScript copy of the builder has the same \<open>buildQuery\<close> but for its
  \<open>OFFSET\<close> step, which does not look at \<open>limitValue\<close>: it runs when \<open>pageValue\<close> is neither
  \<open>null\<close> nor \<open>undefined\<close> nor \<open>NaN\<close>, and multiplies by \<open>this.limitValue\<close> as it is. That
  property is \<open>undefined\<close> until \<open>limit\<close> is called, and \<open>undefined\<close> taken as a number is
  \<open>NaN\<close>.\<close>

fun toNumber :: "number option \<Rightarrow> number" where
  "toNumber None = NaN"
| "toNumber (Some n) = n"

fun offsetClause_js :: "number option \<Rightarrow> number option \<Rightarrow> string" where
  "offsetClause_js l (Some (Num p)) =
     '' OFFSET '' @ numberToString (times_number (minus_number (Num p) (Num 1)) (toNumber l))"
| "offsetClause_js l p = []"

definition queryClauses_js :: "TableQuery \<Rightarrow> bool \<Rightarrow> string \<Rightarrow> string" where
  "queryClauses_js b includeSelect whereClauses =
     (let q0 = (if includeSelect then query b else []);
          q1 = (if length (joins b) > 0 then q0 @ '' '' @ joinStr '' '' (joins b) else q0);
          q2 = (if length whereClauses > 0 then q1 @ '' WHERE '' @ whereClauses else q1);
          q3 = (if length (groupBy_f b) > 0
                then q2 @ '' GROUP BY '' @ joinStr '', '' (groupBy_f b) else q2)
      in q3 @ limitClause (limitValue b) @ offsetClause_js (limitValue b) (pageValue b))"

definition buildQuery_js :: "TableQuery \<Rightarrow> bool \<Rightarrow> error + string" where
  "buildQuery_js b includeSelect =
     (case buildConditions b of
        Inl e \<Rightarrow> Inl e
      | Inr whereClauses \<Rightarrow> Inr (queryClauses_js b includeSelect whereClauses @ orderByClause b))"

section \<open>The database driver\<close>

text \<open>
  Every call into the \<open>pg\<close> driver is an \<open>io\<close> action. The driver is a parameter: it
  answers an action, knowing all the actions before it, with rows or with an error (code
  and message). The actions performed so far are the trace, threaded through every
  operation: an operation that leaves the trace as it was has executed no SQL.
\<close>

datatype io =
    PoolQuery pool string
  | PoolEnd pool
  | PoolConnect pool
  | ClientQuery pool string

record runtime =
  driver :: "io list \<Rightarrow> io \<Rightarrow> (string option \<times> string) + jsval list"
  POSTGRES_DATABASE :: "string option"

definition perform :: "runtime \<Rightarrow> io \<Rightarrow> io list \<Rightarrow> (error + jsval list) \<times> io list" where
  "perform rt a tr =
     (case driver rt tr a of
        Inl (c, m) \<Rightarrow> (Inl (DriverError c m), tr @ [a])
      | Inr rows \<Rightarrow> (Inr rows, tr @ [a]))"

definition msg_no_connection :: string where
  "msg_no_connection = ''No se ha establecido una conexi'' @ [CHR 0xF3] @ ''n a la base de datos.''"

text \<open>\<open>#get_response(sql)\<close> of \<open>TableQuery\<close>: one query on the builder's pool; when the
  driver reports code \<open>3D000\<close> (the database does not exist), the database is created
  through a second pool and the query runs once more on a third.\<close>

definition get_response ::
  "runtime \<Rightarrow> string \<Rightarrow> TableQuery \<Rightarrow> io list \<Rightarrow> (error + jsval list) \<times> TableQuery \<times> io list" where
  \<open>get_response rt sql b tr =
     (case conection b of
        None \<Rightarrow> (Inl (Error msg_no_connection), b, tr)
      | Some p \<Rightarrow>
          (case perform rt (PoolQuery p sql) tr of
             (Inr rows, tr1) \<Rightarrow> (Inr rows, b, tr1)
           | (Inl e, tr1) \<Rightarrow>
               if error_code e = Some ''3D000'' then
                 (case perform rt (PoolEnd p) tr1 of
                    (Inl e2, tr2) \<Rightarrow> (Inl e2, b, tr2)
                  | (Inr r2, tr2) \<Rightarrow>
                 (case perform rt (PoolConnect AdminPool) tr2 of
                    (Inl e3, tr3) \<Rightarrow> (Inl e3, b\<lparr> conection := Some AdminPool \<rparr>, tr3)
                  | (Inr r3, tr3) \<Rightarrow>
                 (case perform rt (ClientQuery AdminPool
                         (''CREATE DATABASE "'' @ optString (POSTGRES_DATABASE rt) @ ''"'')) tr3 of
                    (Inl e4, tr4) \<Rightarrow> (Inl e4, b\<lparr> conection := Some AdminPool \<rparr>, tr4)
                  | (Inr r4, tr4) \<Rightarrow>
                 (case perform rt (PoolEnd AdminPool) tr4 of
                    (Inl e5, tr5) \<Rightarrow> (Inl e5, b\<lparr> conection := Some AdminPool \<rparr>, tr5)
                  | (Inr r5, tr5) \<Rightarrow>
                 (case perform rt (PoolQuery TargetPool sql) tr5 of
                    (r, tr6) \<Rightarrow> (r, b\<lparr> conection := Some TargetPool \<rparr>, tr6))))))
               else (Inl e, b, tr1)))\<close>

section \<open>Insert, update and delete\<close>

text \<open>\<open>Object.keys\<close> and \<open>Object.values\<close>: the properties of an object in enumeration
  order, the indices of an array or a string, nothing for another primitive value, and a
  \<open>TypeError\<close> for \<open>null\<close> and \<open>undefined\<close>. \<open>data[key]\<close> reads one property.\<close>

fun objectKeys :: "jsval \<Rightarrow> error + string list" where
  "objectKeys (VObject kvs) = Inr (map fst kvs)"
| "objectKeys (VArray vs) = Inr (map showNat [0..<length vs])"
| "objectKeys (VString s) = Inr (map showNat [0..<length s])"
| "objectKeys VNull = Inl (TypeError ''Cannot convert undefined or null to object'')"
| "objectKeys VUndefined = Inl (TypeError ''Cannot convert undefined or null to object'')"
| "objectKeys v = Inr []"

fun objectValues :: "jsval \<Rightarrow> error + jsval list" where
  "objectValues (VObject kvs) = Inr (map snd kvs)"
| "objectValues (VArray vs) = Inr vs"
| "objectValues (VString s) = Inr (map (\<lambda>c. VString [c]) s)"
| "objectValues VNull = Inl (TypeError ''Cannot convert undefined or null to object'')"
| "objectValues VUndefined = Inl (TypeError ''Cannot convert undefined or null to object'')"
| "objectValues v = Inr []"

fun getProperty :: "jsval \<Rightarrow> string \<Rightarrow> jsval" where
  "getProperty (VObject kvs) key = (case map_of kvs key of Some v \<Rightarrow> v | None \<Rightarrow> VUndefined)"
| "getProperty v key = VUndefined"

definition msg_update_object :: string where
  "msg_update_object =
     ''El m'' @ [CHR 0xE9] @ ''todo update requiere un objeto con pares clave-valor.''"

definition msg_update_where :: string where
  "msg_update_where =
     ''Debe especificar al menos una condici'' @ [CHR 0xF3] @ ''n WHERE para realizar un update.''"

definition msg_delete_where :: string where
  "msg_delete_where =
     ''Debe especificar al menos una condici'' @ [CHR 0xF3] @ ''n WHERE para realizar un delete.''"

definition msg_insert_array :: string where
  "msg_insert_array =
     ''El m'' @ [CHR 0xE9] @ ''todo insert requiere un array de objetos con pares clave-valor.''"

definition msg_insert_objects :: string where
  "msg_insert_objects = ''El array debe contener solo objetos v'' @ [CHR 0xE1] @ ''lidos.''"

definition update_q ::
  "runtime \<Rightarrow> jsval \<Rightarrow> TableQuery \<Rightarrow> io list \<Rightarrow> (error + jsval list) \<times> TableQuery \<times> io list" where
  \<open>update_q rt data b tr =
     (if typeof data \<noteq> ''object'' \<or> isArray data then (Inl (Error msg_update_object), b, tr)
      else case objectKeys data of
        Inl e \<Rightarrow> (Inl e, b, tr)
      | Inr keys \<Rightarrow>
          (let updates = joinStr '', ''
                 (map (\<lambda>key. ''"'' @ key @ ''" = '' @ toString (quoteString (getProperty data key)))
                    keys)
           in case buildConditions b of
                Inl e \<Rightarrow> (Inl e, b, tr)
              | Inr whereClauses \<Rightarrow>
                  if length whereClauses = 0 then (Inl (Error msg_update_where), b, tr)
                  else get_response rt
                         (''UPDATE "'' @ tableName b @ ''" SET '' @ updates @ '' WHERE ''
                          @ whereClauses @ '' RETURNING *'') b tr))\<close>

definition delete_q ::
  "runtime \<Rightarrow> TableQuery \<Rightarrow> io list \<Rightarrow> (error + jsval list) \<times> TableQuery \<times> io list" where
  \<open>delete_q rt b tr =
     (case buildConditions b of
        Inl e \<Rightarrow> (Inl e, b, tr)
      | Inr whereClauses \<Rightarrow>
          if length whereClauses = 0 then (Inl (Error msg_delete_where), b, tr)
          else get_response rt
                 (''DELETE FROM "'' @ tableName b @ ''" WHERE '' @ whereClauses @ '' RETURNING *'')
                 b tr)\<close>

text \<open>The statement \<open>insert\<close> renders for one row.\<close>

definition insertSql :: "string \<Rightarrow> jsval \<Rightarrow> error + string" where
  \<open>insertSql t row =
     (case objectKeys row of
        Inl e \<Rightarrow> Inl e
      | Inr ks \<Rightarrow>
          (case objectValues row of
             Inl e \<Rightarrow> Inl e
           | Inr vs \<Rightarrow>
               (let keys = map (\<lambda>key. ''"'' @ key @ ''"'') ks;
                    values = map (\<lambda>v. if v = VUndefined \<or> v = VNull then VString ''NULL''
                                      else quoteString v) vs;
                    columns = joinStr '', '' keys;
                    placeholders = arrayJoin '', '' values
                in Inr (''INSERT INTO "'' @ t @ ''" ('' @ columns @ '') VALUES ('' @ placeholders
                        @ '') RETURNING *''))))\<close>

text \<open>The loop \<open>for (const row of data)\<close> of \<open>insert\<close>; \<open>result[0]\<close> of an empty row
  set is \<open>undefined\<close>.\<close>

fun insertRows ::
  "runtime \<Rightarrow> jsval list \<Rightarrow> jsval list \<Rightarrow> TableQuery \<Rightarrow> io list
     \<Rightarrow> (error + jsval list) \<times> TableQuery \<times> io list" where
  "insertRows rt [] results b tr = (Inr results, b, tr)"
| "insertRows rt (row # rest) results b tr =
     (case insertSql (tableName b) row of
        Inl e \<Rightarrow> (Inl e, b, tr)
      | Inr sqlQuery \<Rightarrow>
          (case get_response rt sqlQuery b tr of
             (Inl e, b', tr') \<Rightarrow> (Inl e, b', tr')
           | (Inr result, b', tr') \<Rightarrow> insertRows rt rest (results @ [item result 0]) b' tr'))"

definition insert_q ::
  "runtime \<Rightarrow> jsval \<Rightarrow> TableQuery \<Rightarrow> io list \<Rightarrow> (error + jsval list) \<times> TableQuery \<times> io list" where
  "insert_q rt data b tr =
     (case data of
        VArray rows \<Rightarrow>
          if \<not> list_all (\<lambda>item. typeof item = ''object'' \<and> item \<noteq> VNull) rows
          then (Inl (Error msg_insert_objects), b, tr)
          else (case insertRows rt rows [] b tr of
                  (Inl e, b', tr') \<Rightarrow>
                    (Inl (Error (''Error al insertar los datos: '' @ error_message e)), b', tr')
                | (Inr results, b', tr') \<Rightarrow> (Inr results, b', tr'))
      | _ \<Rightarrow> (Inl (Error msg_insert_array), b, tr))"

section \<open>The raw query entry point\<close>

record Postgres =
  pool :: "pool option"

record result =
  status :: string
  message :: string
  data :: jsval

text \<open>\<open>s.split(sep)\<close> for a separator of one character, and \<open>s.trim()\<close>.\<close>

fun splitStr :: "char \<Rightarrow> string \<Rightarrow> string list" where
  "splitStr sep [] = [[]]"
| "splitStr sep (c # cs) =
     (if c = sep then [] # splitStr sep cs
      else (case splitStr sep cs of
              [] \<Rightarrow> [[c]]
            | x # xs \<Rightarrow> (c # x) # xs))"

definition isSpace :: "char \<Rightarrow> bool" where
  "isSpace c = (c \<in> set [CHR 0x09, CHR 0x0A, CHR 0x0B, CHR 0x0C, CHR 0x0D, CHR 0x20, CHR 0xA0])"

definition trim :: "string \<Rightarrow> string" where
  "trim s = rev (dropWhile isSpace (rev (dropWhile isSpace s)))"

definition sqlCommands :: "string \<Rightarrow> string list" where
  "sqlCommands sqlQuery = filter (\<lambda>cmd. length (trim cmd) > 0) (splitStr CHR '';'' sqlQuery)"

text \<open>The loop \<open>for (const command of sqlCommands)\<close> of \<open>Postgres.query\<close>.\<close>

fun runCommands ::
  "runtime \<Rightarrow> pool \<Rightarrow> string list \<Rightarrow> jsval list list \<Rightarrow> io list
     \<Rightarrow> (error + jsval list list) \<times> io list" where
  "runCommands rt p [] results tr = (Inr results, tr)"
| "runCommands rt p (command # rest) results tr =
     (case perform rt (PoolQuery p (command @ '';'')) tr of
        (Inl e, tr') \<Rightarrow> (Inl e, tr')
      | (Inr rows, tr') \<Rightarrow> runCommands rt p rest (results @ [rows]) tr')"

text \<open>The \<open>catch\<close> block of \<open>Postgres.query\<close>.\<close>

definition errorResult :: "error \<Rightarrow> result" where
  "errorResult e =
     \<lparr> status = ''error'',
       message = (if error_message e = [] then ''An error occurred while executing the query.''
                  else error_message e),
       data = VNull \<rparr>"

definition query_q :: "runtime \<Rightarrow> Postgres \<Rightarrow> jsval \<Rightarrow> io list \<Rightarrow> (error + result) \<times> io list" where
  "query_q rt pg sqlQuery tr =
     (case sqlQuery of
        VString s \<Rightarrow>
          (case pool pg of
             None \<Rightarrow> (Inr (errorResult (Error ''Database connection pool is not available.'')), tr)
           | Some p \<Rightarrow>
               (case runCommands rt p (sqlCommands s) [] tr of
                  (Inl e, tr') \<Rightarrow> (Inr (errorResult e), tr')
                | (Inr results, tr') \<Rightarrow>
                    (Inr \<lparr> status = ''success'', message = ''Query executed successfully'',
                           data = (if length results = 1 then VArray (results ! 0)
                                   else VArray (map VArray results)) \<rparr>, tr')))
      | _ \<Rightarrow> (Inl (Error ''The SQL query must be a string.''), tr))"

section \<open>Call sequences and sample runtimes\<close>

text \<open>A sequence of \<open>where\<close> and \<open>orWhere\<close> calls, run on a builder from left to right.
  \<open>keyword\<close> is the combinator a call stands for, \<open>node\<close> the condition it makes on a
  builder whose pending combinator is \<open>AND\<close>, and \<open>predicate\<close> the text of its predicate
  alone.\<close>

datatype call =
    Where string "string option" jsval
  | OrWhere string "string option" jsval

fun run_call :: "TableQuery \<Rightarrow> call \<Rightarrow> TableQuery" where
  "run_call b (Where col op v) = where_q col op v b"
| "run_call b (OrWhere col op v) = orWhere col op v b"

definition run_calls :: "call list \<Rightarrow> TableQuery \<Rightarrow> TableQuery" where
  "run_calls cs b = foldl run_call b cs"

fun keyword :: "call \<Rightarrow> string" where
  "keyword (Where col op v) = ''AND''"
| "keyword (OrWhere col op v) = ''OR''"

fun node :: "call \<Rightarrow> condition" where
  "node (Where col op v) = leaf col (case op of None \<Rightarrow> ''='' | Some x \<Rightarrow> x) v ''AND''"
| "node (OrWhere col op v) = leaf col (case op of None \<Rightarrow> ''='' | Some x \<Rightarrow> x) v ''OR''"

definition predicate :: "call \<Rightarrow> error + string" where
  "predicate c = conditionStr (node c)"

text \<open>Predicates with their combinators, written one after the other: the first one
  bare, each later one after a space, its combinator and a space.\<close>

fun separated :: "(string \<times> string) list \<Rightarrow> string" where
  "separated [] = []"
| "separated ((k, p) # rest) = p @ concat (map (\<lambda>(k', p'). '' '' @ k' @ '' '' @ p') rest)"

text \<open>Three drivers to run the model on: one that answers every action with no rows, one
  that rejects every action with a message, and one that rejects every action with an
  empty message.\<close>

definition quietRuntime :: runtime where
  "quietRuntime = \<lparr> driver = (\<lambda>tr a. Inr []), POSTGRES_DATABASE = Some ''app'' \<rparr>"

definition rejectingRuntime :: runtime where
  "rejectingRuntime =
     \<lparr> driver = (\<lambda>tr a. Inl (Some ''42601'', ''syntax error'')), POSTGRES_DATABASE = Some ''app'' \<rparr>"

definition silentRuntime :: runtime where
  "silentRuntime = \<lparr> driver = (\<lambda>tr a. Inl (None, [])), POSTGRES_DATABASE = Some ''app'' \<rparr>"

text \<open>Two more: a driver that answers every query with one row holding the text it was
  sent, and one that does so for the first action only and rejects every later one.\<close>

fun echoRows :: "io \<Rightarrow> jsval list" where
  "echoRows (PoolQuery p sql) = [VObject [(''sql'', VString sql)]]"
| "echoRows (ClientQuery p sql) = [VObject [(''sql'', VString sql)]]"
| "echoRows a = []"

definition echoRuntime :: runtime where
  "echoRuntime = \<lparr> driver = (\<lambda>tr a. Inr (echoRows a)), POSTGRES_DATABASE = Some ''app'' \<rparr>"

definition failingLaterRuntime :: runtime where
  \<open>failingLaterRuntime =
     \<lparr> driver = (\<lambda>tr a. if tr = [] then Inr (echoRows a)
                         else Inl (Some ''42P01'', ''relation "t" does not exist'')),
       POSTGRES_DATABASE = Some ''app'' \<rparr>\<close>

section \<open>Rendering of conditions\<close>

lemma mapE_zip_cong:
  "length js = length xs \<Longrightarrow> (\<And>x j. j \<in> set js \<Longrightarrow> f (x, j) = g x) \<Longrightarrow> mapE f (zip xs js) = mapE g xs"
proof (induction xs arbitrary: js)
  case Nil
  then show ?case by simp
next
  case (Cons x xs)
  then obtain j js' where js: "js = j # js'" by (cases js) auto
  have "mapE f (zip xs js') = mapE g xs"
    using Cons.IH [of js'] Cons.prems js by simp
  moreover have "f (x, j) = g x"
    using Cons.prems js by simp
  ultimately show ?case by (simp only: js zip_Cons_Cons mapE.simps)
qed

lemma renderCondition_later:
  "j \<noteq> 0 \<Longrightarrow> renderCondition c j = renderCondition c (Suc 0)"
  by (simp add: renderCondition_def)

lemma buildConditions_Nil: "conditions b = [] \<Longrightarrow> buildConditions b = Inr []"
  by (simp add: buildConditions_def)

lemma buildConditions_Cons:
  assumes "conditions b = c # cs"
  shows "buildConditions b =
     (case renderCondition c 0 of
        Inl e \<Rightarrow> Inl e
      | Inr p \<Rightarrow> (case mapE (\<lambda>d. renderCondition d (Suc 0)) cs of
                    Inl e \<Rightarrow> Inl e
                  | Inr ps \<Rightarrow> Inr (p @ concat ps)))"
proof -
  have z: "zip (c # cs) [0..<length (c # cs)] = (c, 0) # zip cs [Suc 0..<Suc (length cs)]"
    by (simp add: upt_conv_Cons del: upt_Suc)
  have t: "mapE (\<lambda>(cond, index). renderCondition cond index) (zip cs [Suc 0..<Suc (length cs)])
           = mapE (\<lambda>d. renderCondition d (Suc 0)) cs"
  proof (rule mapE_zip_cong)
    show "length [Suc 0..<Suc (length cs)] = length cs" by (simp del: upt_Suc)
  next
    fix x j assume "j \<in> set [Suc 0..<Suc (length cs)]"
    then have "j \<noteq> 0" by (auto simp del: upt_Suc)
    then show "(case (x, j) of (cond, index) \<Rightarrow> renderCondition cond index) = renderCondition x (Suc 0)"
      using renderCondition_later [of j x] by simp
  qed
  have "buildConditions b =
      (case mapE (\<lambda>(cond, index). renderCondition cond index) ((c, 0) # zip cs [Suc 0..<Suc (length cs)]) of
        Inl e \<Rightarrow> Inl e | Inr parts \<Rightarrow> Inr (concat parts))"
    unfolding buildConditions_def assms z ..
  also have "\<dots> = (case renderCondition c 0 of
        Inl e \<Rightarrow> Inl e
      | Inr p \<Rightarrow> (case mapE (\<lambda>d. renderCondition d (Suc 0)) cs of
                    Inl e \<Rightarrow> Inl e
                  | Inr ps \<Rightarrow> Inr (p @ concat ps)))"
    by (simp del: upt_Suc add: t split: sum.splits)
  finally show ?thesis .
qed


lemma run_calls_conditions:
  "nextType b = ''AND'' \<Longrightarrow>
     conditions (run_calls cs b) = conditions b @ map node cs \<and> nextType (run_calls cs b) = ''AND''"
proof (induction cs arbitrary: b)
  case Nil
  then show ?case by (simp add: run_calls_def)
next
  case (Cons c cs)
  have step: "conditions (run_call b c) = conditions b @ [node c] \<and> nextType (run_call b c) = ''AND''"
    using Cons.prems by (cases c) (simp_all add: where_q_def orWhere_def)
  have "run_calls (c # cs) b = run_calls cs (run_call b c)"
    by (simp add: run_calls_def)
  with Cons.IH [of "run_call b c"] step show ?case by simp
qed

lemma keyword_node: "type_c (node c) = keyword c"
  by (cases c) (simp_all add: leaf_def)

lemma isGroup_node: "\<not> isGroup (node c)"
  by (cases c) (simp_all add: leaf_def)

lemma renderCondition_node_first: "renderCondition (node c) 0 = predicate c"
  by (simp add: renderCondition_def isGroup_node predicate_def split: sum.splits)

lemma renderCondition_node_later:
  "renderCondition (node c) (Suc 0) =
     (case predicate c of Inl e \<Rightarrow> Inl e | Inr s \<Rightarrow> Inr ('' '' @ keyword c @ '' '' @ s))"
  by (simp add: renderCondition_def isGroup_node predicate_def keyword_node split: sum.splits)

lemma mapE_render_nodes:
  "mapE (\<lambda>d. renderCondition d (Suc 0)) (map node cs) =
     (case mapE predicate cs of
        Inl e \<Rightarrow> Inl e
      | Inr ps \<Rightarrow> Inr (map (\<lambda>(k, p). '' '' @ k @ '' '' @ p) (zip (map keyword cs) ps)))"
proof (induction cs)
  case Nil
  then show ?case by simp
next
  case (Cons c cs)
  then show ?case
    by (simp add: renderCondition_node_later split: sum.splits)
qed

lemma buildConditions_run_calls:
  assumes "conditions b = []" and "nextType b = ''AND''"
  shows "buildConditions (run_calls cs b) =
     (case mapE predicate cs of
        Inl e \<Rightarrow> Inl e
      | Inr ps \<Rightarrow> Inr (separated (zip (map keyword cs) ps)))"
proof (cases cs)
  case Nil
  then show ?thesis
    using assms by (simp add: run_calls_def buildConditions_Nil)
next
  case (Cons c rest)
  have "conditions (run_calls cs b) = node c # map node rest"
    using run_calls_conditions [OF assms(2), of cs] assms(1) Cons by simp
  then show ?thesis
    by (simp add: buildConditions_Cons renderCondition_node_first mapE_render_nodes Cons
          split: sum.splits)
qed


lemma mapE_length: "mapE f xs = Inr ys \<Longrightarrow> length ys = length xs"
  by (induction xs arbitrary: ys) (auto split: sum.splits)

lemma mapE_total: "(\<And>x. x \<in> set xs \<Longrightarrow> \<exists>y. f x = Inr y) \<Longrightarrow> \<exists>ys. mapE f xs = Inr ys"
proof (induction xs)
  case Nil
  then show ?case by simp
next
  case (Cons x xs)
  then obtain y where "f x = Inr y" by (meson list.set_intros(1))
  moreover obtain ys where "mapE f xs = Inr ys" using Cons by (meson list.set_intros(2))
  ultimately show ?case by simp
qed

lemma predicate_simple:
  "operator (node c) \<noteq> Some ''BETWEEN'' \<Longrightarrow> operator (node c) \<noteq> Some ''IN'' \<Longrightarrow>
     \<exists>p. predicate c = Inr p"
  by (simp add: predicate_def conditionStr_def)

lemma renderCondition_prefix:
  "renderCondition c (Suc 0) =
     (case renderCondition c 0 of Inl e \<Rightarrow> Inl e | Inr s \<Rightarrow> Inr ('' '' @ type_c c @ '' '' @ s))"
  by (simp add: renderCondition_def split: sum.splits)

lemma mapE_render_later:
  "mapE (\<lambda>d. renderCondition d (Suc 0)) cs =
     (case mapE (\<lambda>c. renderCondition c 0) cs of
        Inl e \<Rightarrow> Inl e
      | Inr ps \<Rightarrow> Inr (map (\<lambda>(k, p). '' '' @ k @ '' '' @ p) (zip (map type_c cs) ps)))"
proof (induction cs)
  case Nil
  then show ?case by simp
next
  case (Cons c cs)
  then show ?case
    by (simp add: renderCondition_prefix split: sum.splits)
qed

lemma buildConditions_separated:
  "buildConditions b =
     (case mapE (\<lambda>c. renderCondition c 0) (conditions b) of
        Inl e \<Rightarrow> Inl e
      | Inr ps \<Rightarrow> Inr (separated (zip (map type_c (conditions b)) ps)))"
proof (cases "conditions b")
  case Nil
  then show ?thesis by (simp add: buildConditions_Nil)
next
  case (Cons c cs)
  then show ?thesis
    by (simp add: buildConditions_Cons mapE_render_later split: sum.splits)
qed

text \<open>
  Claim C1. In every builder state \<open>buildConditions\<close> renders the conditions in list
  order: the first one without a combinator keyword, every later one after exactly one
  keyword, its own type between single spaces. A sequence of \<open>where\<close> and \<open>orWhere\<close> calls
  on a builder whose pending combinator is \<open>AND\<close> (as the constructor leaves it) appends
  one condition for each call, in call order, tagged \<open>AND\<close> for \<open>where\<close> and \<open>OR\<close> for
  \<open>orWhere\<close>. So, on a builder that holds no condition yet, the rendered text is the
  predicates of the calls in call order, the first bare, each later one after its own
  keyword. There is one predicate text for each call. A predicate that cannot be rendered
  makes the whole call raise that predicate's error; this cannot happen when no operator
  is \<open>BETWEEN\<close> or \<open>IN\<close>.
\<close>

theorem buildConditions_call_order:
  "buildConditions b =
     (case mapE (\<lambda>c. renderCondition c 0) (conditions b) of
        Inl e \<Rightarrow> Inl e
      | Inr ps \<Rightarrow> Inr (separated (zip (map type_c (conditions b)) ps)))
   \<and> (nextType b = ''AND'' \<longrightarrow>
        conditions (run_calls cs b) = conditions b @ map node cs
        \<and> map type_c (map node cs) = map keyword cs)
   \<and> (nextType b = ''AND'' \<and> conditions b = [] \<longrightarrow>
        buildConditions (run_calls cs b) =
          (case mapE predicate cs of
             Inl e \<Rightarrow> Inl e
           | Inr ps \<Rightarrow> Inr (separated (zip (map keyword cs) ps))))
   \<and> (\<forall>ps. mapE predicate cs = Inr ps \<longrightarrow> length ps = length cs)
   \<and> ((\<forall>c \<in> set cs. operator (node c) \<noteq> Some ''BETWEEN'' \<and> operator (node c) \<noteq> Some ''IN'')
        \<longrightarrow> (\<exists>ps. mapE predicate cs = Inr ps))"
proof -
  have t: "(\<forall>c \<in> set cs. operator (node c) \<noteq> Some ''BETWEEN'' \<and> operator (node c) \<noteq> Some ''IN'')
          \<Longrightarrow> \<exists>ps. mapE predicate cs = Inr ps"
    by (rule mapE_total) (simp add: predicate_simple)
  have k: "map type_c (map node cs) = map keyword cs"
    by (simp add: keyword_node)
  show ?thesis
    using buildConditions_separated [of b] run_calls_conditions [of b cs]
      buildConditions_run_calls [of b cs] mapE_length [of predicate cs] t k
    by blast
qed

theorem buildConditions_call_order_witness:
  \<open>buildConditions
     (run_calls [Where ''age'' (Some ''>'') (VNumber (Num 25)),
                 OrWhere ''name'' None (VString ''Jane''),
                 Where ''id'' (Some ''IN'') (VArray [VNumber (Num 1), VNumber (Num 2)])]
        (new_TableQuery ''users'' None))
   = Inr ''age > 25 OR name = 'Jane' AND id IN (1, 2)''\<close>
  using buildConditions_call_order [of "new_TableQuery ''users'' None"
      "[Where ''age'' (Some ''>'') (VNumber (Num 25)),
        OrWhere ''name'' None (VString ''Jane''),
        Where ''id'' (Some ''IN'') (VArray [VNumber (Num 1), VNumber (Num 2)])]"]
  by (simp add: new_TableQuery_def predicate_def conditionStr_def leaf_def arrayJoin_def
        exact_def decimal_def showNat.simps)

text \<open>Through \<open>where\<close>, the operator \<open>IN\<close> with a value that is not an array raises when
  the conditions are rendered.\<close>

lemma where_in_needs_array:
  "buildConditions (where_q ''id'' (Some ''IN'') (VNumber (Num 5)) (new_TableQuery ''users'' None))
     = Inl (TypeError ''cond.value.map is not a function'')"
  by (simp add: new_TableQuery_def where_q_def buildConditions_def renderCondition_def
        conditionStr_def leaf_def)

section \<open>The WHERE guard of update and delete\<close>

lemma conditionStr_nonempty: "conditionStr c = Inr s \<Longrightarrow> s \<noteq> []"
  by (auto simp: conditionStr_def split: if_splits sum.splits prod.splits jsval.splits)

lemma renderCondition_nonempty: "renderCondition c i = Inr s \<Longrightarrow> s \<noteq> []"
  by (auto simp: renderCondition_def Let_def conditionStr_nonempty split: if_splits sum.splits)

lemma buildConditions_nonempty:
  assumes "conditions b \<noteq> []"
  shows "buildConditions b \<noteq> Inr []"
proof -
  obtain c cs where cs: "conditions b = c # cs"
    using assms by (cases "conditions b") auto
  show ?thesis
    using renderCondition_nonempty [of c 0]
    by (auto simp: buildConditions_Cons [OF cs] split: sum.splits)
qed

lemma get_response_errors:
  "get_response rt sql b tr = (Inl e, b', tr') \<Longrightarrow>
     (\<exists>c m. e = DriverError c m) \<or> e = Error msg_no_connection"
  by (auto simp: get_response_def perform_def split: option.splits sum.splits prod.splits if_splits)

lemma no_connection_is_not_a_guard:
  "msg_no_connection \<noteq> msg_update_where" "msg_no_connection \<noteq> msg_delete_where"
  by (simp_all add: msg_no_connection_def msg_update_where_def msg_delete_where_def)

lemma update_messages_differ: "msg_update_object \<noteq> msg_update_where"
  by (simp add: msg_update_object_def msg_update_where_def)

lemma update_without_conditions:
  assumes "conditions b = []"
  shows "\<exists>e. update_q rt payload b tr = (Inl e, b, tr)"
    and "update_q rt (VObject kvs) b tr = (Inl (Error msg_update_where), b, tr)"
  using assms
  by (auto simp: update_q_def buildConditions_Nil Let_def split: sum.splits)

lemma delete_without_conditions:
  "conditions b = [] \<Longrightarrow> delete_q rt b tr = (Inl (Error msg_delete_where), b, tr)"
  by (simp add: delete_q_def buildConditions_Nil)

lemma mapE_error: "mapE f xs = Inl e \<Longrightarrow> \<exists>x \<in> set xs. f x = Inl e"
  by (induction xs) (auto split: sum.splits)

lemma destructure2_error: "destructure2 v = Inl e \<Longrightarrow> \<exists>m. e = TypeError m"
  by (cases v) auto

lemma conditionStr_error: "conditionStr c = Inl e \<Longrightarrow> \<exists>m. e = TypeError m"
  by (auto simp: conditionStr_def split: if_splits sum.splits prod.splits jsval.splits
        dest: destructure2_error)

lemma renderCondition_error: "renderCondition c i = Inl e \<Longrightarrow> \<exists>m. e = TypeError m"
  by (auto simp: renderCondition_def Let_def split: if_splits sum.splits dest: conditionStr_error)

lemma buildConditions_error: "buildConditions b = Inl e \<Longrightarrow> \<exists>m. e = TypeError m"
  by (auto simp: buildConditions_def split: sum.splits
        dest!: mapE_error dest: renderCondition_error)

lemma objectKeys_error: "objectKeys v = Inl e \<Longrightarrow> \<exists>m. e = TypeError m"
  by (cases v) auto

lemma update_with_conditions:
  assumes "conditions b \<noteq> []"
  shows "fst (update_q rt payload b tr) \<noteq> Inl (Error msg_update_where)"
proof
  assume a: "fst (update_q rt payload b tr) = Inl (Error msg_update_where)"
  then obtain b' tr' where u: "update_q rt payload b tr = (Inl (Error msg_update_where), b', tr')"
    by (cases "update_q rt payload b tr") auto
  have ne: "buildConditions b \<noteq> Inr []" using assms by (rule buildConditions_nonempty)
  from u show False
    using ne get_response_errors [of rt _ b tr "Error msg_update_where" b' tr']
      no_connection_is_not_a_guard update_messages_differ
    by (auto simp: update_q_def Let_def split: if_splits sum.splits
          dest: buildConditions_error objectKeys_error)
qed

lemma delete_with_conditions:
  assumes "conditions b \<noteq> []"
  shows "fst (delete_q rt b tr) \<noteq> Inl (Error msg_delete_where)"
proof
  assume a: "fst (delete_q rt b tr) = Inl (Error msg_delete_where)"
  then obtain b' tr' where u: "delete_q rt b tr = (Inl (Error msg_delete_where), b', tr')"
    by (cases "delete_q rt b tr") auto
  have ne: "buildConditions b \<noteq> Inr []" using assms by (rule buildConditions_nonempty)
  from u show False
    using ne get_response_errors [of rt _ b tr "Error msg_delete_where" b' tr']
      no_connection_is_not_a_guard
    by (auto simp: delete_q_def split: if_splits sum.splits dest: buildConditions_error)
qed

text \<open>
  Claim C2. With no condition set, the rendered condition string is empty, \<open>update\<close> and
  \<open>delete\<close> raise an error, and builder and trace are as before: no SQL statement is
  executed. The error of \<open>delete\<close>, and of \<open>update\<close> on an object, is the missing-WHERE
  error. Once a condition exists, the rendered string is not empty and neither call raises
  its missing-WHERE error.
\<close>

theorem update_delete_where_guard:
  "(conditions b = [] \<longrightarrow>
      buildConditions b = Inr []
      \<and> (\<exists>e. update_q rt payload b tr = (Inl e, b, tr))
      \<and> update_q rt (VObject kvs) b tr = (Inl (Error msg_update_where), b, tr)
      \<and> delete_q rt b tr = (Inl (Error msg_delete_where), b, tr))
   \<and> (conditions b \<noteq> [] \<longrightarrow>
      buildConditions b \<noteq> Inr []
      \<and> fst (update_q rt payload b tr) \<noteq> Inl (Error msg_update_where)
      \<and> fst (delete_q rt b tr) \<noteq> Inl (Error msg_delete_where))"
  using update_without_conditions [of b] delete_without_conditions [of b rt tr]
    update_with_conditions [of b rt payload tr] delete_with_conditions [of b rt tr]
    buildConditions_nonempty [of b] buildConditions_Nil [of b]
  by blast

theorem update_delete_where_guard_witness:
  \<open>update_q quietRuntime (VObject [(''age'', VNumber (Num 1))]) (new_TableQuery ''users'' (Some SharedPool)) []
     = (Inl (Error msg_update_where), new_TableQuery ''users'' (Some SharedPool), [])
   \<and> delete_q quietRuntime (new_TableQuery ''users'' (Some SharedPool)) []
     = (Inl (Error msg_delete_where), new_TableQuery ''users'' (Some SharedPool), [])
   \<and> fst (update_q quietRuntime (VObject [(''age'', VNumber (Num 1))])
          (where_q ''id'' (Some ''='') (VNumber (Num 7)) (new_TableQuery ''users'' (Some SharedPool))) [])
     \<noteq> Inl (Error msg_update_where)
   \<and> fst (delete_q quietRuntime
          (where_q ''id'' (Some ''='') (VNumber (Num 7)) (new_TableQuery ''users'' (Some SharedPool))) [])
     \<noteq> Inl (Error msg_delete_where)\<close>
  using update_delete_where_guard [of "new_TableQuery ''users'' (Some SharedPool)" quietRuntime
        "VObject [(''age'', VNumber (Num 1))]" "[]" "[(''age'', VNumber (Num 1))]"]
    update_delete_where_guard [of "where_q ''id'' (Some ''='') (VNumber (Num 7)) (new_TableQuery ''users'' (Some SharedPool))"
        quietRuntime "VObject [(''age'', VNumber (Num 1))]" "[]" "[]"]
  by (simp add: new_TableQuery_def where_q_def)

lemma update_sends_sql:
  \<open>update_q quietRuntime (VObject [(''age'', VNumber (Num 1))])
      (where_q ''id'' (Some ''='') (VNumber (Num 7)) (new_TableQuery ''users'' (Some SharedPool))) []
   = (Inr [], where_q ''id'' (Some ''='') (VNumber (Num 7)) (new_TableQuery ''users'' (Some SharedPool)),
      [PoolQuery SharedPool ''UPDATE "users" SET "age" = 1 WHERE id = 7 RETURNING *''])\<close>
  by (simp add: update_q_def new_TableQuery_def where_q_def buildConditions_def renderCondition_def
        conditionStr_def leaf_def get_response_def perform_def quietRuntime_def exact_def
        decimal_def showNat.simps)

section \<open>The raw query entry point never raises\<close>

text \<open>The loop returns what the driver answered, command by command.\<close>

lemma runCommands_rows:
  "length rowsets = length cmds \<Longrightarrow>
   (\<And>i. i < length cmds \<Longrightarrow>
      driver rt (tr @ map (\<lambda>command. PoolQuery p (command @ '';'')) (take i cmds))
        (PoolQuery p (cmds ! i @ '';'')) = Inr (rowsets ! i)) \<Longrightarrow>
   runCommands rt p cmds results tr
     = (Inr (results @ rowsets), tr @ map (\<lambda>command. PoolQuery p (command @ '';'')) cmds)"
proof (induction cmds arbitrary: rowsets results tr)
  case Nil
  then show ?case by simp
next
  case (Cons command rest)
  then obtain rows rs where rowsets: "rowsets = rows # rs" by (cases rowsets) auto
  have first: "driver rt tr (PoolQuery p (command @ '';'')) = Inr rows"
    using Cons.prems(2) [of 0] rowsets by simp
  have later: "driver rt ((tr @ [PoolQuery p (command @ '';'')])
                   @ map (\<lambda>command. PoolQuery p (command @ '';'')) (take i rest))
                 (PoolQuery p (rest ! i @ '';'')) = Inr (rs ! i)" if "i < length rest" for i
    using Cons.prems(2) [of "Suc i"] that rowsets by simp
  have "runCommands rt p rest (results @ [rows]) (tr @ [PoolQuery p (command @ '';'')])
        = (Inr ((results @ [rows]) @ rs),
           (tr @ [PoolQuery p (command @ '';'')]) @ map (\<lambda>command. PoolQuery p (command @ '';'')) rest)"
    using Cons.prems(1) rowsets later by (intro Cons.IH) simp_all
  with first rowsets show ?case by (simp add: perform_def)
qed

text \<open>The loop stops at the first command the driver rejects.\<close>

lemma runCommands_rejected:
  "k < length cmds \<Longrightarrow>
   (\<And>i. i < k \<Longrightarrow>
      \<exists>rows. driver rt (tr @ map (\<lambda>command. PoolQuery p (command @ '';'')) (take i cmds))
        (PoolQuery p (cmds ! i @ '';'')) = Inr rows) \<Longrightarrow>
   driver rt (tr @ map (\<lambda>command. PoolQuery p (command @ '';'')) (take k cmds))
     (PoolQuery p (cmds ! k @ '';'')) = Inl (c, m) \<Longrightarrow>
   runCommands rt p cmds results tr
     = (Inl (DriverError c m),
        tr @ map (\<lambda>command. PoolQuery p (command @ '';'')) (take (Suc k) cmds))"
proof (induction cmds arbitrary: k results tr)
  case Nil
  then show ?case by simp
next
  case (Cons command rest)
  show ?case
  proof (cases k)
    case 0
    with Cons.prems(3) show ?thesis by (simp add: perform_def)
  next
    case (Suc j)
    obtain rows where first: "driver rt tr (PoolQuery p (command @ '';'')) = Inr rows"
      using Cons.prems(2) [of 0] Suc by auto
    have earlier: "\<exists>rows. driver rt ((tr @ [PoolQuery p (command @ '';'')])
                   @ map (\<lambda>command. PoolQuery p (command @ '';'')) (take i rest))
                 (PoolQuery p (rest ! i @ '';'')) = Inr rows" if "i < j" for i
      using Cons.prems(2) [of "Suc i"] that Suc by simp
    have "runCommands rt p rest (results @ [rows]) (tr @ [PoolQuery p (command @ '';'')])
        = (Inl (DriverError c m),
           (tr @ [PoolQuery p (command @ '';'')])
             @ map (\<lambda>command. PoolQuery p (command @ '';'')) (take (Suc j) rest))"
      using Cons.prems(1,3) Suc earlier by (intro Cons.IH) simp_all
    with first Suc show ?thesis by (simp add: perform_def)
  qed
qed

text \<open>
  Claim C3, as amended. For every input string, \<open>query\<close> raises nothing and returns a
  structured result. Without a pool the result is an error result and nothing is
  executed. With a pool, the commands are sent to the driver one after the other, each
  followed by a semicolon. When the driver answers every command with rows, the result
  is a success, and \<open>data\<close> is what the driver answered: the row set itself if there is
  exactly one command, the list of the row sets in the order of the commands otherwise.
  When the driver rejects a command after answering the ones before it, no later
  command is sent, \<open>status\<close> is \<open>error\<close>, \<open>data\<close> is \<open>null\<close> and \<open>message\<close> is the driver's
  error text, or a fixed text when the driver's text is empty.
\<close>

theorem query_structured_result:
  "(\<exists>r tr'. query_q rt pg (VString s) tr = (Inr r, tr'))
   \<and> (pool pg = None \<longrightarrow>
        query_q rt pg (VString s) tr
          = (Inr \<lparr> status = ''error'', message = ''Database connection pool is not available.'',
                    data = VNull \<rparr>, tr))
   \<and> (pool pg = Some p \<and> length rowsets = length (sqlCommands s)
        \<and> (\<forall>i < length (sqlCommands s).
              driver rt (tr @ map (\<lambda>command. PoolQuery p (command @ '';'')) (take i (sqlCommands s)))
                (PoolQuery p (sqlCommands s ! i @ '';'')) = Inr (rowsets ! i)) \<longrightarrow>
        query_q rt pg (VString s) tr
          = (Inr \<lparr> status = ''success'', message = ''Query executed successfully'',
                    data = (case rowsets of
                              [rows] \<Rightarrow> VArray rows
                            | _ \<Rightarrow> VArray (map VArray rowsets)) \<rparr>,
             tr @ map (\<lambda>command. PoolQuery p (command @ '';'')) (sqlCommands s)))
   \<and> (pool pg = Some p \<and> k < length (sqlCommands s)
        \<and> (\<forall>i < k. \<exists>rows.
              driver rt (tr @ map (\<lambda>command. PoolQuery p (command @ '';'')) (take i (sqlCommands s)))
                (PoolQuery p (sqlCommands s ! i @ '';'')) = Inr rows)
        \<and> driver rt (tr @ map (\<lambda>command. PoolQuery p (command @ '';'')) (take k (sqlCommands s)))
              (PoolQuery p (sqlCommands s ! k @ '';'')) = Inl (c, m) \<longrightarrow>
        query_q rt pg (VString s) tr
          = (Inr \<lparr> status = ''error'',
                    message = (if m = [] then ''An error occurred while executing the query.'' else m),
                    data = VNull \<rparr>,
             tr @ map (\<lambda>command. PoolQuery p (command @ '';'')) (take (Suc k) (sqlCommands s))))"
proof -
  have total: "\<exists>r tr'. query_q rt pg (VString s) tr = (Inr r, tr')"
    by (simp add: query_q_def split: option.splits sum.splits prod.splits)
  have none: "pool pg = None \<longrightarrow>
        query_q rt pg (VString s) tr
          = (Inr \<lparr> status = ''error'', message = ''Database connection pool is not available.'',
                    data = VNull \<rparr>, tr)"
    by (simp add: query_q_def errorResult_def)
  have rows: "query_q rt pg (VString s) tr
          = (Inr \<lparr> status = ''success'', message = ''Query executed successfully'',
                    data = (case rowsets of
                              [rows] \<Rightarrow> VArray rows
                            | _ \<Rightarrow> VArray (map VArray rowsets)) \<rparr>,
             tr @ map (\<lambda>command. PoolQuery p (command @ '';'')) (sqlCommands s))"
    if "pool pg = Some p" "length rowsets = length (sqlCommands s)"
       "\<forall>i < length (sqlCommands s).
              driver rt (tr @ map (\<lambda>command. PoolQuery p (command @ '';'')) (take i (sqlCommands s)))
                (PoolQuery p (sqlCommands s ! i @ '';'')) = Inr (rowsets ! i)"
  proof -
    have "runCommands rt p (sqlCommands s) [] tr
          = (Inr ([] @ rowsets), tr @ map (\<lambda>command. PoolQuery p (command @ '';'')) (sqlCommands s))"
      using that(2,3) by (intro runCommands_rows) simp_all
    moreover have "(if length rowsets = 1 then VArray (rowsets ! 0) else VArray (map VArray rowsets))
          = (case rowsets of [rows] \<Rightarrow> VArray rows | _ \<Rightarrow> VArray (map VArray rowsets))"
      by (cases rowsets) (auto split: list.splits)
    ultimately show ?thesis using that(1) by (simp add: query_q_def)
  qed
  have rejected: "query_q rt pg (VString s) tr
          = (Inr \<lparr> status = ''error'',
                    message = (if m = [] then ''An error occurred while executing the query.'' else m),
                    data = VNull \<rparr>,
             tr @ map (\<lambda>command. PoolQuery p (command @ '';'')) (take (Suc k) (sqlCommands s)))"
    if "pool pg = Some p" "k < length (sqlCommands s)"
       "\<forall>i < k. \<exists>rows.
              driver rt (tr @ map (\<lambda>command. PoolQuery p (command @ '';'')) (take i (sqlCommands s)))
                (PoolQuery p (sqlCommands s ! i @ '';'')) = Inr rows"
       "driver rt (tr @ map (\<lambda>command. PoolQuery p (command @ '';'')) (take k (sqlCommands s)))
              (PoolQuery p (sqlCommands s ! k @ '';'')) = Inl (c, m)"
  proof -
    have "runCommands rt p (sqlCommands s) [] tr
          = (Inl (DriverError c m),
             tr @ map (\<lambda>command. PoolQuery p (command @ '';'')) (take (Suc k) (sqlCommands s)))"
      using that(2,3,4) by (intro runCommands_rejected) simp_all
    then show ?thesis using that(1) by (simp add: query_q_def errorResult_def)
  qed
  from total none rows rejected show ?thesis by blast
qed

theorem query_structured_result_witness:
  \<open>query_q echoRuntime \<lparr> pool = Some SharedPool \<rparr> (VString ''SELECT 1'') []
     = (Inr \<lparr> status = ''success'', message = ''Query executed successfully'',
               data = VArray [VObject [(''sql'', VString ''SELECT 1;'')]] \<rparr>,
        [PoolQuery SharedPool ''SELECT 1;''])
   \<and> query_q echoRuntime \<lparr> pool = Some SharedPool \<rparr> (VString ''SELECT 1; SELECT 2; '') []
     = (Inr \<lparr> status = ''success'', message = ''Query executed successfully'',
               data = VArray [VArray [VObject [(''sql'', VString ''SELECT 1;'')]],
                              VArray [VObject [(''sql'', VString '' SELECT 2;'')]]] \<rparr>,
        [PoolQuery SharedPool ''SELECT 1;'', PoolQuery SharedPool '' SELECT 2;''])
   \<and> query_q failingLaterRuntime \<lparr> pool = Some SharedPool \<rparr>
        (VString ''SELECT 1; SELECT * FROM t; SELECT 3'') []
     = (Inr \<lparr> status = ''error'', message = ''relation "t" does not exist'', data = VNull \<rparr>,
        [PoolQuery SharedPool ''SELECT 1;'', PoolQuery SharedPool '' SELECT * FROM t;''])
   \<and> query_q echoRuntime \<lparr> pool = None \<rparr> (VString ''SELECT 1'') []
     = (Inr \<lparr> status = ''error'', message = ''Database connection pool is not available.'',
               data = VNull \<rparr>, [])\<close>
  using
    query_structured_result [of echoRuntime "\<lparr> pool = Some SharedPool \<rparr>" "''SELECT 1''" "[]"
      SharedPool "[[VObject [(''sql'', VString ''SELECT 1;'')]]]"]
    query_structured_result [of echoRuntime "\<lparr> pool = Some SharedPool \<rparr>" "''SELECT 1; SELECT 2; ''" "[]"
      SharedPool "[[VObject [(''sql'', VString ''SELECT 1;'')]], [VObject [(''sql'', VString '' SELECT 2;'')]]]"]
    query_structured_result [of failingLaterRuntime "\<lparr> pool = Some SharedPool \<rparr>"
      "''SELECT 1; SELECT * FROM t; SELECT 3''" "[]" SharedPool _ 1 "Some ''42P01''" \<open>''relation "t" does not exist''\<close>]
    query_structured_result [of echoRuntime "\<lparr> pool = None \<rparr>" "''SELECT 1''" "[]"]
  by (simp add: sqlCommands_def trim_def isSpace_def echoRuntime_def failingLaterRuntime_def
      All_less_Suc)

text \<open>The claim as stated fails for a driver error whose text is empty: the message is
  the fixed text, not the driver's.\<close>

theorem query_message_fallback:
  \<open>driver silentRuntime [] (PoolQuery SharedPool ''SELECT 1;'') = Inl (None, [])
   \<and> query_q silentRuntime \<lparr> pool = Some SharedPool \<rparr> (VString ''SELECT 1'') []
     = (Inr \<lparr> status = ''error'', message = ''An error occurred while executing the query.'',
               data = VNull \<rparr>,
        [PoolQuery SharedPool ''SELECT 1;''])\<close>
  by (simp add: sqlCommands_def trim_def isSpace_def perform_def silentRuntime_def
        query_q_def errorResult_def)

section \<open>Pagination\<close>

lemma buildConditions_cong:
  "conditions b' = conditions b \<Longrightarrow> buildConditions b' = buildConditions b"
  by (simp add: buildConditions_def)

lemma orderByClause_cong:
  "orderBy_f b' = orderBy_f b \<Longrightarrow> query b' = query b \<Longrightarrow> orderByClause b' = orderByClause b"
  by (simp add: orderByClause_def)

lemma orderByClause_none: "orderBy_f b = [] \<Longrightarrow> orderByClause b = []"
  by (simp add: orderByClause_def)

lemma exact_arith:
  "exact p \<Longrightarrow> exact (p - 1) \<Longrightarrow> exact n \<Longrightarrow> exact ((p - 1) * n) \<Longrightarrow>
     times_number (minus_number (Num p) (Num 1)) (Num n) = Num ((p - 1) * n)"
  by (simp add: exact_def)

text \<open>
  Claim C4, as amended. After \<open>limit(n)\<close> and \<open>page(p)\<close>, with numbers \<open>n\<close> and \<open>p\<close> other
  than \<open>NaN\<close>, \<open>buildQuery\<close> renders the clauses of the builder, then \<open>LIMIT n OFFSET o\<close>,
  then the \<open>ORDER BY\<close> clause, where \<open>o\<close> is what the runtime computes for \<open>(p - 1) * n\<close>:
  in the TypeScript builder when \<open>n\<close> is not \<open>0\<close>, in the older JavaScript copy for every
  \<open>n\<close>. When \<open>n\<close>, \<open>p\<close>, \<open>p - 1\<close> and \<open>(p - 1) * n\<close> are integers of the exact range, \<open>o\<close> is
  the integer \<open>(p - 1) * n\<close>, and both numbers print in decimal digits. In the TypeScript
  builder, after \<open>page\<close> alone, with no limit set, the query is what it is without the
  page: no \<open>LIMIT\<close> and no \<open>OFFSET\<close>. An error of the conditions is raised unchanged.
\<close>

theorem limit_page_offset:
  "limit (Num n) (page (Num p) b) = page (Num p) (limit (Num n) b)
   \<and> (n \<noteq> 0 \<longrightarrow>
        buildQuery (page (Num p) (limit (Num n) b)) sel =
          (case buildQuery (b\<lparr> limitValue := None, pageValue := None, orderBy_f := [] \<rparr>) sel of
             Inl e \<Rightarrow> Inl e
           | Inr q \<Rightarrow>
               Inr (q @ '' LIMIT '' @ numberToString (Num n) @ '' OFFSET ''
                    @ numberToString (times_number (minus_number (Num p) (Num 1)) (Num n))
                    @ orderByClause b)))
   \<and> buildQuery_js (page (Num p) (limit (Num n) b)) sel =
        (case buildQuery_js (b\<lparr> limitValue := None, pageValue := None, orderBy_f := [] \<rparr>) sel of
           Inl e \<Rightarrow> Inl e
         | Inr q \<Rightarrow>
             Inr (q @ '' LIMIT '' @ numberToString (Num n) @ '' OFFSET ''
                  @ numberToString (times_number (minus_number (Num p) (Num 1)) (Num n))
                  @ orderByClause b))
   \<and> (exact n \<and> exact p \<and> exact (p - 1) \<and> exact ((p - 1) * n) \<longrightarrow>
        numberToString (Num n) = decimal n
        \<and> numberToString (times_number (minus_number (Num p) (Num 1)) (Num n))
            = decimal ((p - 1) * n))
   \<and> (limitValue b = None \<longrightarrow>
        buildQuery (page pv b) sel = buildQuery (b\<lparr> pageValue := None \<rparr>) sel
        \<and> buildQuery (page pv b) sel =
            (case buildQuery (b\<lparr> pageValue := None, orderBy_f := [] \<rparr>) sel of
               Inl e \<Rightarrow> Inl e
             | Inr q \<Rightarrow> Inr (q @ orderByClause b))
        \<and> limitClause (limitValue (page pv b)) = []
        \<and> offsetClause (limitValue (page pv b)) (pageValue (page pv b)) = [])"
proof -
  have commute: "limit (Num n) (page (Num p) b) = page (Num p) (limit (Num n) b)"
    by (simp add: limit_def page_def)
  have ts: "buildQuery (page (Num p) (limit (Num n) b)) sel =
          (case buildQuery (b\<lparr> limitValue := None, pageValue := None, orderBy_f := [] \<rparr>) sel of
             Inl e \<Rightarrow> Inl e
           | Inr q \<Rightarrow>
               Inr (q @ '' LIMIT '' @ numberToString (Num n) @ '' OFFSET ''
                    @ numberToString (times_number (minus_number (Num p) (Num 1)) (Num n))
                    @ orderByClause b))" if "n \<noteq> 0"
    using that
    by (cases "buildConditions b")
       (simp_all add: buildQuery_def queryClauses_def page_def limit_def Let_def buildConditions_def
          orderByClause_def del: numberToString.simps minus_number.simps times_number.simps)
  have js: "buildQuery_js (page (Num p) (limit (Num n) b)) sel =
          (case buildQuery_js (b\<lparr> limitValue := None, pageValue := None, orderBy_f := [] \<rparr>) sel of
             Inl e \<Rightarrow> Inl e
           | Inr q \<Rightarrow>
               Inr (q @ '' LIMIT '' @ numberToString (Num n) @ '' OFFSET ''
                    @ numberToString (times_number (minus_number (Num p) (Num 1)) (Num n))
                    @ orderByClause b))"
    by (cases "buildConditions b")
       (simp_all add: buildQuery_js_def queryClauses_js_def page_def limit_def Let_def
          buildConditions_def orderByClause_def
          del: numberToString.simps minus_number.simps times_number.simps)
  have digits: "numberToString (Num n) = decimal n
        \<and> numberToString (times_number (minus_number (Num p) (Num 1)) (Num n))
            = decimal ((p - 1) * n)"
    if "exact n" "exact p" "exact (p - 1)" "exact ((p - 1) * n)"
    using that exact_arith [of p n] by simp
  have alone: "buildQuery (page pv b) sel = buildQuery (b\<lparr> pageValue := None \<rparr>) sel
        \<and> buildQuery (page pv b) sel =
            (case buildQuery (b\<lparr> pageValue := None, orderBy_f := [] \<rparr>) sel of
               Inl e \<Rightarrow> Inl e
             | Inr q \<Rightarrow> Inr (q @ orderByClause b))
        \<and> limitClause (limitValue (page pv b)) = []
        \<and> offsetClause (limitValue (page pv b)) (pageValue (page pv b)) = []"
    if "limitValue b = None"
    using that
    by (cases "buildConditions b")
       (simp_all add: buildQuery_def queryClauses_def page_def Let_def buildConditions_def
          orderByClause_def)
  from commute ts js digits alone show ?thesis by blast
qed

theorem limit_page_offset_witness:
  \<open>buildQuery (page (Num 3) (limit (Num 10)
       (where_q ''age'' (Some ''>'') (VNumber (Num 18)) (new_TableQuery ''users'' None)))) True
     = Inr ''SELECT * FROM "users" WHERE age > 18 LIMIT 10 OFFSET 20''
   \<and> buildQuery_js (page (Num 3) (limit (Num 10)
       (where_q ''age'' (Some ''>'') (VNumber (Num 18)) (new_TableQuery ''users'' None)))) True
     = Inr ''SELECT * FROM "users" WHERE age > 18 LIMIT 10 OFFSET 20''
   \<and> buildQuery (page (Num 3) (new_TableQuery ''users'' None)) True = Inr ''SELECT * FROM "users"''\<close>
  using limit_page_offset [of 10 3 "where_q ''age'' (Some ''>'') (VNumber (Num 18)) (new_TableQuery ''users'' None)" True]
    limit_page_offset [of 1 1 "new_TableQuery ''users'' None" True "Num 3"]
  by (simp add: new_TableQuery_def where_q_def buildQuery_def queryClauses_def buildConditions_def
        buildQuery_js_def queryClauses_js_def renderCondition_def conditionStr_def leaf_def
        orderByClause_def exact_def decimal_def showNat.simps)

text \<open>The claim as stated fails in both copies of the builder. In the TypeScript builder
  \<open>limit(0)\<close> followed by \<open>page(2)\<close> renders no \<open>OFFSET\<close>, \<open>limit(NaN)\<close> renders no \<open>LIMIT\<close> and no
  \<open>OFFSET\<close>, and \<open>page(NaN)\<close> renders no \<open>OFFSET\<close>. In the older JavaScript copy \<open>page(2)\<close>
  alone, with no limit set, renders an \<open>OFFSET\<close>, of \<open>NaN\<close>.\<close>

theorem offset_not_as_claimed:
  \<open>buildQuery (page (Num 2) (limit (Num 0) (new_TableQuery ''t'' None))) True
     = Inr ''SELECT * FROM "t" LIMIT 0''
   \<and> buildQuery (page (Num 2) (limit (Num 0) (new_TableQuery ''t'' None))) True
     \<noteq> Inr ''SELECT * FROM "t" LIMIT 0 OFFSET 0''
   \<and> buildQuery (page (Num 2) (limit NaN (new_TableQuery ''t'' None))) True
     = Inr ''SELECT * FROM "t"''
   \<and> buildQuery (page NaN (limit (Num 5) (new_TableQuery ''t'' None))) True
     = Inr ''SELECT * FROM "t" LIMIT 5''
   \<and> limitValue (page (Num 2) (new_TableQuery ''t'' None)) = None
   \<and> buildQuery_js (page (Num 2) (new_TableQuery ''t'' None)) True
     = Inr ''SELECT * FROM "t" OFFSET NaN''\<close>
  by (simp add: new_TableQuery_def buildQuery_def queryClauses_def buildQuery_js_def
        queryClauses_js_def buildConditions_def page_def limit_def orderByClause_def exact_def
        decimal_def showNat.simps)

text \<open>The older copy multiplies by a limit of \<open>0\<close> and by a limit of \<open>NaN\<close> as by any other,
  and skips a page of \<open>NaN\<close>.\<close>

lemma offset_js_examples:
  \<open>buildQuery_js (page (Num 2) (limit (Num 0) (new_TableQuery ''t'' None))) True
     = Inr ''SELECT * FROM "t" LIMIT 0 OFFSET 0''
   \<and> buildQuery_js (page (Num 2) (limit NaN (new_TableQuery ''t'' None))) True
     = Inr ''SELECT * FROM "t" OFFSET NaN''
   \<and> buildQuery_js (page NaN (limit (Num 5) (new_TableQuery ''t'' None))) True
     = Inr ''SELECT * FROM "t" LIMIT 5''\<close>
  by (simp add: new_TableQuery_def buildQuery_js_def queryClauses_js_def buildConditions_def
        page_def limit_def orderByClause_def exact_def decimal_def showNat.simps)

section \<open>The pending combinator\<close>

text \<open>\<open>or()\<close> sets the pending combinator to \<open>OR\<close>. \<open>where\<close>, \<open>whereNull\<close>, \<open>whereNotNull\<close>,
  \<open>whereBetween\<close>, \<open>whereIn\<close> and \<open>whereGroup\<close>, when they append a condition, tag it with the
  pending combinator and set the pending combinator to \<open>AND\<close>. \<open>orWhere\<close> tags its
  condition \<open>OR\<close> and leaves the pending combinator as it finds it; on a builder whose
  pending combinator is \<open>AND\<close> that makes it equal to \<open>or()\<close> followed by \<open>where\<close>.\<close>

lemma pending_combinator:
  "nextType (or_q b) = ''OR''
   \<and> type_c (last (conditions (where_q col op v b))) = nextType b
   \<and> nextType (where_q col op v b) = ''AND''
   \<and> type_c (last (conditions (whereNull col b))) = nextType b
   \<and> nextType (whereNull col b) = ''AND''
   \<and> type_c (last (conditions (whereNotNull col b))) = nextType b
   \<and> nextType (whereNotNull col b) = ''AND''
   \<and> (a \<noteq> VUndefined \<and> c \<noteq> VUndefined \<longrightarrow>
        (\<exists>b'. whereBetween col (VArray [a, c]) b = Inr b'
           \<and> type_c (last (conditions b')) = nextType b \<and> nextType b' = ''AND''))
   \<and> type_c (last (conditions (whereIn col (VArray (x # xs)) b))) = nextType b
   \<and> nextType (whereIn col (VArray (x # xs)) b) = ''AND''
   \<and> (\<forall>b'. whereGroup callback b = Inr b' \<longrightarrow>
        type_c (last (conditions b')) = nextType b \<and> nextType b' = ''AND'')
   \<and> type_c (last (conditions (orWhere col op v b))) = ''OR''
   \<and> nextType (orWhere col op v b) = nextType b
   \<and> (nextType b = ''AND'' \<longrightarrow> orWhere col op v b = where_q col op v (or_q b))"
proof -
  have "\<forall>b'. whereGroup callback b = Inr b' \<longrightarrow>
        type_c (last (conditions b')) = nextType b \<and> nextType b' = ''AND''"
    by (auto simp: whereGroup_def groupNode_def split: sum.splits)
  moreover have "a \<noteq> VUndefined \<and> c \<noteq> VUndefined \<longrightarrow>
        (\<exists>b'. whereBetween col (VArray [a, c]) b = Inr b'
           \<and> type_c (last (conditions b')) = nextType b \<and> nextType b' = ''AND'')"
    by (simp add: whereBetween_def leaf_def)
  ultimately show ?thesis
    by (simp add: or_q_def where_q_def orWhere_def whereNull_def whereNotNull_def whereIn_def
          leaf_def)
qed

text \<open>
  Claim C5: \<open>or()\<close> sets the combinator for exactly one subsequent appended condition,
  after which the pending combinator is \<open>AND\<close> again, and \<open>orWhere\<close> is \<open>or()\<close> followed by
  \<open>where\<close>, leaving the pending combinator \<open>AND\<close>. The code departs from it when \<open>orWhere\<close>
  is called while \<open>OR\<close> is pending: after \<open>or()\<close>, \<open>orWhere\<close> leaves \<open>OR\<close> pending where
  \<open>or()\<close> followed by \<open>where\<close> leaves \<open>AND\<close>, so that in
  \<open>where('x', '=', 0).or().orWhere('a', '=', 1).where('b', '=', 2)\<close> the last condition is
  joined with \<open>OR\<close>, and with \<open>AND\<close> when \<open>or().where\<close> stands in the place of \<open>orWhere\<close>.
\<close>

theorem orWhere_keeps_pending_or:
  \<open>nextType (orWhere ''a'' (Some ''='') (VNumber (Num 1)) (or_q (new_TableQuery ''t'' None))) = ''OR''
   \<and> nextType (where_q ''a'' (Some ''='') (VNumber (Num 1)) (or_q (or_q (new_TableQuery ''t'' None))))
       = ''AND''
   \<and> buildConditions
        (where_q ''b'' (Some ''='') (VNumber (Num 2))
          (orWhere ''a'' (Some ''='') (VNumber (Num 1))
            (or_q (where_q ''x'' (Some ''='') (VNumber (Num 0)) (new_TableQuery ''t'' None)))))
       = Inr ''x = 0 OR a = 1 OR b = 2''
   \<and> buildConditions
        (where_q ''b'' (Some ''='') (VNumber (Num 2))
          (where_q ''a'' (Some ''='') (VNumber (Num 1))
            (or_q (or_q (where_q ''x'' (Some ''='') (VNumber (Num 0)) (new_TableQuery ''t'' None))))))
       = Inr ''x = 0 OR a = 1 AND b = 2''\<close>
  by (simp add: new_TableQuery_def or_q_def where_q_def orWhere_def buildConditions_def
        renderCondition_def conditionStr_def leaf_def exact_def decimal_def showNat.simps)

section \<open>Validation of insert\<close>

text \<open>
  Claim C6, as amended. \<open>insert\<close> raises a descriptive error, with builder and trace as
  before (no SQL executed), when its argument is not an array and when an element of the
  array is not a non-null object. An empty array raises nothing: nothing is executed and
  the result is the empty list.
\<close>

theorem insert_validation:
  "(\<not> isArray payload \<longrightarrow> insert_q rt payload b tr = (Inl (Error msg_insert_array), b, tr))
   \<and> ((\<exists>r \<in> set rows. typeof r \<noteq> ''object'' \<or> r = VNull) \<longrightarrow>
        insert_q rt (VArray rows) b tr = (Inl (Error msg_insert_objects), b, tr))
   \<and> insert_q rt (VArray []) b tr = (Inr [], b, tr)"
proof -
  have "\<not> isArray payload \<Longrightarrow> insert_q rt payload b tr = (Inl (Error msg_insert_array), b, tr)"
    by (cases payload) (simp_all add: insert_q_def)
  moreover have "\<exists>r \<in> set rows. typeof r \<noteq> ''object'' \<or> r = VNull \<Longrightarrow>
      insert_q rt (VArray rows) b tr = (Inl (Error msg_insert_objects), b, tr)"
    by (auto simp: insert_q_def list_all_iff)
  moreover have "insert_q rt (VArray []) b tr = (Inr [], b, tr)"
    by (simp add: insert_q_def)
  ultimately show ?thesis by blast
qed

theorem insert_validation_witness:
  \<open>insert_q quietRuntime (VObject [(''name'', VString ''Alice'')]) (new_TableQuery ''users'' (Some SharedPool)) []
     = (Inl (Error msg_insert_array), new_TableQuery ''users'' (Some SharedPool), [])
   \<and> insert_q quietRuntime (VArray [VObject [(''name'', VString ''Alice'')], VNumber (Num 3)])
        (new_TableQuery ''users'' (Some SharedPool)) []
     = (Inl (Error msg_insert_objects), new_TableQuery ''users'' (Some SharedPool), [])\<close>
  using insert_validation [of "VObject [(''name'', VString ''Alice'')]" quietRuntime
        "new_TableQuery ''users'' (Some SharedPool)" "[]"
        "[VObject [(''name'', VString ''Alice'')], VNumber (Num 3)]"]
  by simp

text \<open>The claim as stated fails for the empty array.\<close>

theorem insert_empty_array:
  \<open>insert_q quietRuntime (VArray []) (new_TableQuery ''users'' (Some SharedPool)) []
     = (Inr [], new_TableQuery ''users'' (Some SharedPool), [])\<close>
  by (simp add: insert_q_def)

text \<open>One valid row, for comparison: the statement that is sent.\<close>

lemma insert_sends_sql:
  \<open>insert_q quietRuntime (VArray [VObject [(''name'', VString ''Alice''), (''age'', VNumber (Num 28))]])
      (new_TableQuery ''users'' (Some SharedPool)) []
   = (Inr [VUndefined], new_TableQuery ''users'' (Some SharedPool),
      [PoolQuery SharedPool ''INSERT INTO "users" ("name", "age") VALUES ('Alice', 28) RETURNING *''])\<close>
  by (simp add: insert_q_def insertSql_def arrayJoin_def get_response_def perform_def
        quietRuntime_def new_TableQuery_def exact_def decimal_def showNat.simps)

section \<open>DISTINCT\<close>

text \<open>
  Claim C7. \<open>distinct()\<close> sets the flag and rewrites \<open>SELECT\<close> to \<open>SELECT DISTINCT\<close>, and
  \<open>distinct().select(['name'])\<close> on table \<open>t\<close> renders
  \<open>SELECT DISTINCT name FROM "t"\<close>. A second \<open>distinct()\<close> rewrites the base query again:
  the text is not the one after a single call.
\<close>

theorem distinct_twice:
  \<open>distinct_f (distinct_q (new_TableQuery ''t'' None))
   \<and> query (distinct_q (new_TableQuery ''t'' None)) = ''SELECT DISTINCT * FROM "t"''
   \<and> query (distinct_q (distinct_q (new_TableQuery ''t'' None))) = ''SELECT DISTINCT DISTINCT * FROM "t"''
   \<and> query (select [''name''] (distinct_q (new_TableQuery ''t'' None))) = ''SELECT DISTINCT name FROM "t"''\<close>
  by (simp add: new_TableQuery_def distinct_q_def select_def startsWith_def)

lemma distinct_q_not_idempotent:
  "startsWith (query b) ''SELECT '' \<Longrightarrow> query (distinct_q (distinct_q b)) \<noteq> query (distinct_q b)"
  by (simp add: distinct_q_def startsWith_def)


section \<open>ORDER BY and aggregate projections\<close>

lemma buildQuery_order:
  "buildQuery b sel =
     (case buildQuery (b\<lparr> orderBy_f := [] \<rparr>) sel of
        Inl e \<Rightarrow> Inl e
      | Inr q \<Rightarrow> Inr (q @ orderByClause b))"
proof -
  have "queryClauses (b\<lparr> orderBy_f := [] \<rparr>) sel w = queryClauses b sel w" for w
    by (simp add: queryClauses_def)
  then show ?thesis
    by (simp add: buildQuery_def buildConditions_cong [of "b\<lparr> orderBy_f := [] \<rparr>" b]
          orderByClause_none split: sum.splits)
qed

lemma orderByClause_some:
  "orderBy_f b \<noteq> [] \<Longrightarrow>
     orderByClause b =
       (if startsWith (query b) ''SELECT COUNT'' \<or> startsWith (query b) ''SELECT SUM''
           \<or> startsWith (query b) ''SELECT AVG'' \<or> startsWith (query b) ''SELECT MAX''
           \<or> startsWith (query b) ''SELECT MIN''
        then []
        else '' ORDER BY ''
             @ joinStr '', '' (map (\<lambda>order. order_column order @ '' '' @ direction order) (orderBy_f b)))"
  by (simp add: orderByClause_def)

text \<open>What \<open>buildQuery\<close> does when \<open>orderBy\<close> has been called: it renders the query of the
  same builder without orderings and appends nothing if the text of the base clause
  starts with \<open>SELECT COUNT\<close>, \<open>SELECT SUM\<close>, \<open>SELECT AVG\<close>, \<open>SELECT MAX\<close> or \<open>SELECT MIN\<close>,
  and the \<open>ORDER BY\<close> clause with the accumulated orderings in call order otherwise. The
  base clauses that \<open>count\<close>, \<open>sum\<close>, \<open>avg\<close>, \<open>max\<close> and \<open>min\<close> set start so. A successful
  \<open>orderBy\<close> appends one ordering, with direction \<open>ASC\<close> or \<open>DESC\<close>, and changes nothing
  else.\<close>

lemma orderBy_prefix_check:
  "(orderBy_f b \<noteq> [] \<longrightarrow>
      buildQuery b sel =
        (case buildQuery (b\<lparr> orderBy_f := [] \<rparr>) sel of
           Inl e \<Rightarrow> Inl e
         | Inr q \<Rightarrow>
             Inr (q @ (if startsWith (query b) ''SELECT COUNT'' \<or> startsWith (query b) ''SELECT SUM''
                          \<or> startsWith (query b) ''SELECT AVG'' \<or> startsWith (query b) ''SELECT MAX''
                          \<or> startsWith (query b) ''SELECT MIN''
                       then []
                       else '' ORDER BY ''
                            @ joinStr '', ''
                                (map (\<lambda>order. order_column order @ '' '' @ direction order)
                                   (orderBy_f b))))))
   \<and> startsWith (query (count_q col b)) ''SELECT COUNT''
   \<and> startsWith (query (sum_q col b)) ''SELECT SUM''
   \<and> startsWith (query (avg_q col b)) ''SELECT AVG''
   \<and> startsWith (query (max_q col b)) ''SELECT MAX''
   \<and> startsWith (query (min_q col b)) ''SELECT MIN''
   \<and> (\<forall>b'. orderBy col dir b = Inr b' \<longrightarrow>
        b' = b\<lparr> orderBy_f := orderBy_f b @ [\<lparr> order_column = col, direction = toUpperCase dir \<rparr>] \<rparr>
        \<and> (toUpperCase dir = ''ASC'' \<or> toUpperCase dir = ''DESC''))"
proof -
  have "orderBy_f b \<noteq> [] \<Longrightarrow>
      buildQuery b sel =
        (case buildQuery (b\<lparr> orderBy_f := [] \<rparr>) sel of
           Inl e \<Rightarrow> Inl e
         | Inr q \<Rightarrow>
             Inr (q @ (if startsWith (query b) ''SELECT COUNT'' \<or> startsWith (query b) ''SELECT SUM''
                          \<or> startsWith (query b) ''SELECT AVG'' \<or> startsWith (query b) ''SELECT MAX''
                          \<or> startsWith (query b) ''SELECT MIN''
                       then []
                       else '' ORDER BY ''
                            @ joinStr '', ''
                                (map (\<lambda>order. order_column order @ '' '' @ direction order)
                                   (orderBy_f b)))))"
    by (subst buildQuery_order) (simp add: orderByClause_some cong: sum.case_cong)
  moreover have "startsWith (query (count_q col b)) ''SELECT COUNT''"
    "startsWith (query (sum_q col b)) ''SELECT SUM''"
    "startsWith (query (avg_q col b)) ''SELECT AVG''"
    "startsWith (query (max_q col b)) ''SELECT MAX''"
    "startsWith (query (min_q col b)) ''SELECT MIN''"
    by (simp_all add: startsWith_def count_q_def sum_q_def avg_q_def max_q_def min_q_def)
  moreover have "\<forall>b'. orderBy col dir b = Inr b' \<longrightarrow>
        b' = b\<lparr> orderBy_f := orderBy_f b @ [\<lparr> order_column = col, direction = toUpperCase dir \<rparr>] \<rparr>
        \<and> (toUpperCase dir = ''ASC'' \<or> toUpperCase dir = ''DESC'')"
    by (auto simp: orderBy_def split: if_splits)
  ultimately show ?thesis by blast
qed

lemma orderBy_prefix_check_example:
  \<open>buildQuery
      (projr (orderBy ''id'' ''DESC''
         (projr (orderBy ''name'' ''asc'' (select [''id'', ''name''] (new_TableQuery ''users'' None))))))
      True
     = Inr ''SELECT id, name FROM "users" ORDER BY name ASC, id DESC''
   \<and> buildQuery (projr (orderBy ''id'' ''DESC'' (count_q ''*'' (new_TableQuery ''users'' None)))) True
     = Inr ''SELECT COUNT(*) AS count FROM "users"''\<close>
  using orderBy_prefix_check [of "projr (orderBy ''id'' ''DESC''
         (projr (orderBy ''name'' ''asc'' (select [''id'', ''name''] (new_TableQuery ''users'' None)))))" True]
    orderBy_prefix_check [of "projr (orderBy ''id'' ''DESC'' (count_q ''*'' (new_TableQuery ''users'' None)))" True]
  by (simp add: new_TableQuery_def select_def count_q_def orderBy_def toUpperCase_def upperChar_def
        startsWith_def buildQuery_def queryClauses_def buildConditions_def orderByClause_def)

text \<open>
  Claim C8: with orderings present, \<open>buildQuery\<close> omits \<open>ORDER BY\<close> whenever the base clause
  is a \<open>COUNT\<close>, \<open>SUM\<close>, \<open>AVG\<close>, \<open>MAX\<close> or \<open>MIN\<close> projection and includes it otherwise. The
  code departs from it in both directions, because its check reads the first
  characters of the base clause and nothing else. After \<open>count().distinct()\<close> the base
  clause is still the count, now starting with \<open>SELECT DISTINCT\<close>, and \<open>ORDER BY\<close> is
  rendered. After \<open>select(['COUNTRY'])\<close> the base clause is a plain column, starting with
  \<open>SELECT COUNT\<close>, and \<open>ORDER BY\<close> is left out. With \<open>count()\<close> alone and with
  \<open>select(['id'])\<close> the code does what the claim says.
\<close>

theorem orderBy_prefix_misses:
  \<open>buildQuery (projr (orderBy ''id'' ''ASC'' (distinct_q (count_q ''*'' (new_TableQuery ''users'' None))))) True
     = Inr ''SELECT DISTINCT COUNT(*) AS count FROM "users" ORDER BY id ASC''
   \<and> buildQuery (projr (orderBy ''id'' ''ASC'' (select [''COUNTRY''] (new_TableQuery ''users'' None)))) True
     = Inr ''SELECT COUNTRY FROM "users"''
   \<and> buildQuery (projr (orderBy ''id'' ''ASC'' (count_q ''*'' (new_TableQuery ''users'' None)))) True
     = Inr ''SELECT COUNT(*) AS count FROM "users"''
   \<and> buildQuery (projr (orderBy ''id'' ''ASC'' (select [''id''] (new_TableQuery ''users'' None)))) True
     = Inr ''SELECT id FROM "users" ORDER BY id ASC''\<close>
  by (simp add: new_TableQuery_def select_def count_q_def distinct_q_def orderBy_def toUpperCase_def
        upperChar_def startsWith_def buildQuery_def queryClauses_def buildConditions_def
        orderByClause_def)

section \<open>whereBetween and whereIn\<close>

lemma buildConditions_single:
  "conditions b = [c] \<Longrightarrow> buildConditions b = renderCondition c 0"
  by (simp add: buildConditions_def split: sum.splits)

text \<open>
  Claim C9. \<open>whereBetween(col, [a, c])\<close> with both values defined appends one condition,
  which renders as \<open>col BETWEEN a AND c\<close> (string values in quotes). With a value
  missing, and for \<open>whereIn\<close> with a value that is not an array or with the empty array,
  the builder is returned as it was (conditions and pending combinator unchanged) and
  nothing is raised.
\<close>

theorem whereBetween_whereIn_guards:
  "(a \<noteq> VUndefined \<and> c \<noteq> VUndefined \<longrightarrow>
      whereBetween col (VArray [a, c]) b =
        Inr (b\<lparr> conditions := conditions b @ [leaf col ''BETWEEN'' (VArray [a, c]) (nextType b)],
                nextType := ''AND'' \<rparr>)
      \<and> conditionStr (leaf col ''BETWEEN'' (VArray [a, c]) (nextType b)) =
          Inr (col @ '' BETWEEN '' @ toString (quoteString a) @ '' AND '' @ toString (quoteString c))
      \<and> (conditions b = [] \<longrightarrow>
           buildConditions (projr (whereBetween col (VArray [a, c]) b)) =
             Inr (col @ '' BETWEEN '' @ toString (quoteString a) @ '' AND ''
                  @ toString (quoteString c))))
   \<and> (item vs 0 = VUndefined \<or> item vs 1 = VUndefined \<longrightarrow> whereBetween col (VArray vs) b = Inr b)
   \<and> (\<not> isArray v \<or> v = VArray [] \<longrightarrow> whereIn col v b = b)"
proof -
  have r: "conditionStr (leaf col ''BETWEEN'' (VArray [a, c]) t) =
      Inr (col @ '' BETWEEN '' @ toString (quoteString a) @ '' AND '' @ toString (quoteString c))" for t
    by (simp add: conditionStr_def leaf_def)
  have "\<not> isGroup (leaf col ''BETWEEN'' (VArray [a, c]) t)" for t
    by (simp add: leaf_def)
  then have f: "renderCondition (leaf col ''BETWEEN'' (VArray [a, c]) t) 0 =
      Inr (col @ '' BETWEEN '' @ toString (quoteString a) @ '' AND '' @ toString (quoteString c))" for t
    by (simp add: renderCondition_def r)
  have 1: "a \<noteq> VUndefined \<and> c \<noteq> VUndefined \<Longrightarrow>
      whereBetween col (VArray [a, c]) b =
        Inr (b\<lparr> conditions := conditions b @ [leaf col ''BETWEEN'' (VArray [a, c]) (nextType b)],
                nextType := ''AND'' \<rparr>)"
    by (simp add: whereBetween_def)
  have 2: "a \<noteq> VUndefined \<and> c \<noteq> VUndefined \<Longrightarrow> conditions b = [] \<Longrightarrow>
      buildConditions (projr (whereBetween col (VArray [a, c]) b)) =
        Inr (col @ '' BETWEEN '' @ toString (quoteString a) @ '' AND '' @ toString (quoteString c))"
    by (simp add: 1 buildConditions_single f)
  have 3: "item vs 0 = VUndefined \<or> item vs 1 = VUndefined \<Longrightarrow> whereBetween col (VArray vs) b = Inr b"
    by (auto simp: whereBetween_def)
  have 4: "\<not> isArray v \<or> v = VArray [] \<Longrightarrow> whereIn col v b = b"
    by (cases v) (auto simp: whereIn_def)
  show ?thesis using r 1 2 3 4 by blast
qed

lemma new_TableQuery_simps:
  "conditions (new_TableQuery t c) = []"
  "nextType (new_TableQuery t c) = ''AND''"
  "tableName (new_TableQuery t c) = t"
  "conection (new_TableQuery t c) = c"
  "orderBy_f (new_TableQuery t c) = []"
  "limitValue (new_TableQuery t c) = None"
  "pageValue (new_TableQuery t c) = None"
  by (simp_all add: new_TableQuery_def)

theorem whereBetween_whereIn_guards_witness:
  \<open>buildConditions (projr (whereBetween ''age'' (VArray [VNumber (Num 20), VNumber (Num 30)])
       (new_TableQuery ''users'' None)))
     = Inr ''age BETWEEN 20 AND 30''
   \<and> whereBetween ''age'' (VArray [VNumber (Num 20)]) (new_TableQuery ''users'' None)
     = Inr (new_TableQuery ''users'' None)
   \<and> whereIn ''age'' (VString ''1,2'') (new_TableQuery ''users'' None) = new_TableQuery ''users'' None
   \<and> whereIn ''age'' (VArray []) (new_TableQuery ''users'' None) = new_TableQuery ''users'' None\<close>
  using whereBetween_whereIn_guards [of "VNumber (Num 20)" "VNumber (Num 30)" "''age''" "new_TableQuery ''users'' None"
        "[VNumber (Num 20)]" "VString ''1,2''"]
    whereBetween_whereIn_guards [of "VNumber (Num 20)" "VNumber (Num 30)" "''age''" "new_TableQuery ''users'' None"
        "[VNumber (Num 20)]" "VArray []"]
  by (simp add: new_TableQuery_simps exact_def decimal_def showNat.simps)

section \<open>Groups\<close>

text \<open>
  Claim C10. Whenever \<open>whereGroup\<close> returns, it has appended exactly one group node.
  When the callback adds no condition, \<open>whereGroup\<close> returns, the group renders as
  \<open>()\<close>, and, the condition list being non-empty, \<open>update\<close> and \<open>delete\<close> do not raise
  their missing-WHERE error.
\<close>

theorem whereGroup_empty_group:
  "(\<forall>b'. whereGroup callback b = Inr b' \<longrightarrow>
      (\<exists>s. b' = b\<lparr> conditions := conditions b @ [groupNode s (nextType b)], nextType := ''AND'' \<rparr>))
   \<and> (callback (new_TableQuery (tableName b) None) = Inr g \<and> conditions g = [] \<longrightarrow>
        whereGroup callback b =
          Inr (b\<lparr> conditions := conditions b @ [groupNode [] (nextType b)], nextType := ''AND'' \<rparr>)
        \<and> renderCondition (groupNode [] (nextType b)) 0 = Inr ''()''
        \<and> (conditions b = [] \<longrightarrow> buildConditions (projr (whereGroup callback b)) = Inr ''()'')
        \<and> fst (update_q rt payload (projr (whereGroup callback b)) tr) \<noteq> Inl (Error msg_update_where)
        \<and> fst (delete_q rt (projr (whereGroup callback b)) tr) \<noteq> Inl (Error msg_delete_where))"
proof -
  have 1: "\<forall>b'. whereGroup callback b = Inr b' \<longrightarrow>
      (\<exists>s. b' = b\<lparr> conditions := conditions b @ [groupNode s (nextType b)], nextType := ''AND'' \<rparr>)"
    by (auto simp: whereGroup_def split: sum.splits)
  have r: "renderCondition (groupNode [] t) 0 = Inr ''()''" for t
    by (simp add: renderCondition_def groupNode_def)
  {
    assume cb: "callback (new_TableQuery (tableName b) None) = Inr g" and e: "conditions g = []"
    have w: "whereGroup callback b =
        Inr (b\<lparr> conditions := conditions b @ [groupNode [] (nextType b)], nextType := ''AND'' \<rparr>)"
      by (simp add: whereGroup_def cb buildConditions_Nil [OF e])
    have ne: "conditions (projr (whereGroup callback b)) \<noteq> []"
      by (simp add: w)
    have "conditions b = [] \<Longrightarrow> buildConditions (projr (whereGroup callback b)) = Inr ''()''"
      by (simp add: w buildConditions_single r)
    with w ne have "whereGroup callback b =
          Inr (b\<lparr> conditions := conditions b @ [groupNode [] (nextType b)], nextType := ''AND'' \<rparr>)
        \<and> (conditions b = [] \<longrightarrow> buildConditions (projr (whereGroup callback b)) = Inr ''()'')
        \<and> fst (update_q rt payload (projr (whereGroup callback b)) tr) \<noteq> Inl (Error msg_update_where)
        \<and> fst (delete_q rt (projr (whereGroup callback b)) tr) \<noteq> Inl (Error msg_delete_where)"
      using update_with_conditions [OF ne] delete_with_conditions [OF ne] by blast
  }
  with 1 r show ?thesis by blast
qed

theorem whereGroup_empty_group_witness:
  \<open>whereGroup (\<lambda>q. Inr q) (new_TableQuery ''users'' (Some SharedPool))
     = Inr ((new_TableQuery ''users'' (Some SharedPool))\<lparr> conditions := [groupNode [] ''AND''] \<rparr>)
   \<and> buildQuery (projr (whereGroup (\<lambda>q. Inr q) (new_TableQuery ''users'' (Some SharedPool)))) True
     = Inr ''SELECT * FROM "users" WHERE ()''
   \<and> delete_q quietRuntime (projr (whereGroup (\<lambda>q. Inr q) (new_TableQuery ''users'' (Some SharedPool)))) []
     = (Inr [], projr (whereGroup (\<lambda>q. Inr q) (new_TableQuery ''users'' (Some SharedPool))),
        [PoolQuery SharedPool ''DELETE FROM "users" WHERE () RETURNING *''])
   \<and> fst (update_q quietRuntime (VObject [(''age'', VNumber (Num 1))])
           (projr (whereGroup (\<lambda>q. Inr q) (new_TableQuery ''users'' (Some SharedPool)))) [])
     \<noteq> Inl (Error msg_update_where)\<close>
  using whereGroup_empty_group [of "\<lambda>q. Inr q" "new_TableQuery ''users'' (Some SharedPool)"
        "new_TableQuery ''users'' None" quietRuntime "VObject [(''age'', VNumber (Num 1))]" "[]"]
  by (simp add: new_TableQuery_def whereGroup_def groupNode_def buildQuery_def queryClauses_def
        buildConditions_def renderCondition_def orderByClause_def delete_q_def get_response_def
        perform_def quietRuntime_def)

end
